theory Spec2Isabelle
  imports Complex_Main "HOL-Library.Word" "HOL-Library.Signed_Division"
begin

section \<open>Machine integers and byte strings\<close>

text \<open>
  The Go code mixes arbitrary-precision integers (\<open>*big.Int\<close>, modelled as \<open>int\<close>) with
  64-bit machine integers (\<open>int64\<close>, \<open>uint64\<close> and, on a 64-bit platform, \<open>int\<close>; modelled as
  \<open>64 word\<close>, read as two's complement by \<open>sint\<close> where the Go type is signed).
\<close>

type_synonym byte = "8 word"
type_synonym int64 = "64 word"
type_synonym uint64 = "64 word"

text \<open>Run-time panics of the Go runtime that the modelled code can raise.\<close>

datatype go_panic = SliceBoundsOutOfRange | IndexOutOfRange | NilPointerDereference

text \<open>
  \<open>(*big.Int).Int64\<close>: the low 64 bits of the magnitude, converted to \<open>int64\<close> and negated
  when the number is negative.
\<close>

definition Int64 :: "int \<Rightarrow> int64" where
  "Int64 x = (let v = (word_of_int \<bar>x\<bar> :: int64) in if x < 0 then - v else v)"

text \<open>Go's \<open>/\<close> on \<open>int64\<close>: the quotient truncated towards zero.\<close>

definition quo64 :: "int64 \<Rightarrow> int64 \<Rightarrow> int64" where
  "quo64 a b = word_of_int (sint a sdiv sint b)"

text \<open>
  \<open>(*big.Int).Bytes\<close>: the big-endian bytes of the magnitude, without leading zeros (the empty
  slice for 0).
\<close>

fun Bytes_nat :: "nat \<Rightarrow> byte list" where
  "Bytes_nat n = (if n = 0 then [] else Bytes_nat (n div 256) @ [of_nat (n mod 256)])"

declare Bytes_nat.simps [simp del]

definition Bytes :: "int \<Rightarrow> byte list" where
  "Bytes x = Bytes_nat (nat \<bar>x\<bar>)"

text \<open>The number a byte string denotes in big-endian order.\<close>

fun be_value :: "byte list \<Rightarrow> nat" where
  "be_value [] = 0"
| "be_value (b # bs) = unat b * 256 ^ length bs + be_value bs"

text \<open>\<open>make([]byte, n, n)\<close>: \<open>n\<close> zero bytes.\<close>

definition make_bytes :: "nat \<Rightarrow> byte list" where
  "make_bytes n = replicate n 0"

text \<open>
  \<open>copy(dst[low:], src)\<close>, as its effect on \<open>dst\<close>: the slice expression panics unless
  \<open>0 \<le> low \<le> len(dst)\<close>; \<open>copy\<close> then overwrites as many elements as both slices have.
\<close>

definition copy_from :: "byte list \<Rightarrow> int \<Rightarrow> byte list \<Rightarrow> go_panic + byte list" where
  "copy_from dst low src =
     (if low < 0 \<or> int (length dst) < low then Inl SliceBoundsOutOfRange
      else (let off = nat low; n = min (length dst - off) (length src)
            in Inr (take off dst @ take n src @ drop (off + n) dst)))"


section \<open>Signature recovery (common.go)\<close>

text \<open>\<open>getRecoveryId\<close>: the three branches of the source, in \<open>int64\<close>/\<open>int\<close> arithmetic.\<close>

definition getRecoveryId :: "int \<Rightarrow> int64" where
  "getRecoveryId v =
     (if Int64 v = 0 \<or> Int64 v = 1 then Int64 v
      else if Int64 v = 27 \<or> Int64 v = 28 then Int64 v - 27
      else (let chainId = quo64 (Int64 v - 35) 2
            in Int64 v - 35 - 2 * chainId))"

text \<open>
  \<open>buildECDSASignature\<close>: two 32-byte buffers, \<open>r\<close> and \<open>s\<close> copied to their right ends, then
  the recovery id converted to a byte (\<open>byte(recoveryId)\<close> keeps the low 8 bits).
\<close>

definition buildECDSASignature :: "int \<Rightarrow> int \<Rightarrow> int \<Rightarrow> go_panic + byte list" where
  "buildECDSASignature v r s =
     (let recoveryId = getRecoveryId v;
          rBytes = make_bytes 32;
          sBytes = make_bytes 32
      in case copy_from rBytes (32 - int (length (Bytes r))) (Bytes r) of
           Inl p \<Rightarrow> Inl p
         | Inr rBytes' \<Rightarrow>
             (case copy_from sBytes (32 - int (length (Bytes s))) (Bytes s) of
                Inl p \<Rightarrow> Inl p
              | Inr sBytes' \<Rightarrow>
                  (let rsBytes = rBytes' @ sBytes'
                   in Inr (rsBytes @ [ucast recoveryId]))))"

text \<open>
  \<open>RecoverPubkey\<close>: the curve primitive \<open>crypto.Ecrecover\<close> is a parameter; it is reached only
  when the signature could be built.
\<close>

definition RecoverPubkey ::
  "(byte list \<Rightarrow> byte list \<Rightarrow> 'e + byte list) \<Rightarrow> int \<Rightarrow> int \<Rightarrow> int \<Rightarrow> byte list
     \<Rightarrow> go_panic + ('e + byte list)" where
  "RecoverPubkey Ecrecover v r s msg =
     (case buildECDSASignature v r s of
        Inl p \<Rightarrow> Inl p
      | Inr signature \<Rightarrow> Inr (Ecrecover msg signature))"

section \<open>The node, the libraries and the options\<close>

text \<open>
  Addresses and hashes are byte strings (20 and 32 bytes). Errors of the RPC and library layers
  are carried as their message.
\<close>

type_synonym address = "byte list"
type_synonym hash = "byte list"
type_synonym rpc_error = string
type_synonym privateKey = int

text \<open>\<open>hexutil.Encode\<close>: lower-case hex with the prefix \<open>0x\<close>; \<open>common.Hash.String\<close> is the
  same rendering of the 32 bytes.\<close>

definition hex_digit :: "nat \<Rightarrow> char" where
  "hex_digit n = ''0123456789abcdef'' ! n"

definition hexutil_Encode :: "byte list \<Rightarrow> string" where
  "hexutil_Encode bs =
     ''0x'' @ concat (map (\<lambda>b. [hex_digit (unat b div 16), hex_digit (unat b mod 16)]) bs)"

definition Hash_String :: "hash \<Rightarrow> string" where
  "Hash_String h = hexutil_Encode h"

text \<open>
  \<open>common.HexToHash(hexutil.Encode(result))\<close>: encoding and decoding cancel, which leaves
  \<open>common.BytesToHash\<close>: the last 32 bytes, padded with zeros on the left.
\<close>

definition BytesToHash :: "byte list \<Rightarrow> hash" where
  "BytesToHash b =
     (let b' = (if 32 < length b then drop (length b - 32) b else b)
      in replicate (32 - length b') 0 @ b')"

record receipt =
  Status :: uint64

definition ReceiptStatusSuccessful :: uint64 where
  "ReceiptStatusSuccessful = 1"

text \<open>What one call of \<open>client.TransactionReceipt\<close> answers: a receipt, \<open>ethereum.NotFound\<close>,
  or another error.\<close>

datatype lookup = Found receipt | NotFound | LookupFailed rpc_error

text \<open>
  \<open>ethereum.FeeHistory\<close>: \<open>Reward\<close> has one row per block, the oldest block first
  (\<open>OldestBlock\<close> is the block of the first row), and one column per requested percentile.
\<close>

record feeHistory =
  Reward :: "int list list"
  BaseFeePerGas :: "int list"

text \<open>Of a block only the base fee is read; it is \<open>nil\<close> on a chain without EIP-1559.\<close>

record block =
  BaseFee :: "int option"

datatype tx =
    DynamicFeeTx (Nonce: uint64) (To: "address option") (Value: int) (Gas: uint64)
      (GasTipCap: int) (GasFeeCap: int) (Data: "byte list")
  | LegacyTx (Nonce: uint64) (To: "address option") (Value: int) (Gas: uint64)
      (GasPrice: int) (Data: "byte list")

text \<open>\<open>ethereum.CallMsg\<close> with the fields From, To, Gas, GasPrice, Value, Data.\<close>

datatype callMsg = CallMsg address "address option" uint64 int int "byte list"

text \<open>
  The node as the code sees it: what each RPC answers. \<open>getGasPrice\<close> is a function of this
  package declared in another file; its result is taken as one more answer of the environment.
  \<open>TransactionReceipt client h n\<close> is the \<open>n\<close>-th lookup of hash \<open>h\<close>: the time the call
  takes (nanoseconds) and its answer.
\<close>

record node =
  PendingNonceAt :: "address \<Rightarrow> rpc_error + uint64"
  CodeAt :: "address \<Rightarrow> rpc_error + byte list"
  getGasPrice :: "rpc_error + int"
  FeeHistory :: "nat \<Rightarrow> nat list \<Rightarrow> rpc_error + feeHistory"
  BlockByNumber :: "rpc_error + block"
  NetworkID :: "rpc_error + int"
  EstimateGas :: "callMsg \<Rightarrow> rpc_error + uint64"
  eth_sendRawTransaction :: "string \<Rightarrow> rpc_error + byte list"
  TransactionReceipt :: "hash \<Rightarrow> nat \<Rightarrow> int \<times> lookup"

text \<open>The primitives of go-ethereum the code calls; \<open>'stx\<close> is a signed transaction.\<close>

record 'stx ethlib =
  PubkeyToAddress :: "privateKey \<Rightarrow> address"
  SignTx :: "tx \<Rightarrow> int \<Rightarrow> privateKey \<Rightarrow> rpc_error + 'stx"
  TxHash :: "'stx \<Rightarrow> hash"
  MarshalBinary :: "'stx \<Rightarrow> rpc_error + byte list"
  CreateAddress :: "address \<Rightarrow> uint64 \<Rightarrow> address"

text \<open>
  The package-level options that \<open>Transact\<close> reads, and the package constants it uses that
  are declared in other files (\<open>txTypeEip1559\<close>, \<open>gasUsedByTransferEth\<close>, the
  two explorer maps), taken as parameters.
\<close>

record globals =
  globalOptNonce :: int64
  globalOptGasLimit :: uint64
  globalOptTxType :: string
  globalOptMaxPriorityFeePerGas :: string
  globalOptMaxFeePerGas :: string
  globalOptShowRawTx :: bool
  globalOptShowEstimateGas :: bool
  globalOptDryRun :: bool
  globalOptTerseOutput :: bool
  globalOptNodeUrl :: string
  transferNotCheck :: bool
  txTypeEip1559 :: string
  gasUsedByTransferEth :: uint64
  nodeUrlMap :: "(string \<times> string) list"
  nodeTxExplorerUrlMap :: "string \<Rightarrow> string"

text \<open>What the code does to the outside, in order: RPC calls, sleeps and log lines.\<close>

datatype log_msg =
    LogTxNotFound hash
  | LogRecheck hash
  | LogRawTx string
  | LogEstimateGas uint64
  | WarnTxNotSame hash hash
  | LogExplorerUrl string
  | LogContractDeployed address

datatype event =
    CallPendingNonceAt address
  | CallCodeAt address
  | CallGetGasPrice
  | CallFeeHistory nat "nat list"
  | CallBlockByNumber
  | CallNetworkID
  | CallEstimateGas callMsg
  | CallSendRawTransaction string
  | CallTransactionReceipt hash
  | Sleep int
  | Log log_msg

datatype receipt_error = TransactionReceiptFail rpc_error | GetReceiptTimeout

datatype error =
    PendingNonceAtFail rpc_error
  | IsContractAddressFail rpc_error
  | NetworkIDFail rpc_error
  | SignTxFail rpc_error
  | EstimateGasFail rpc_error
  | SendRawTransactionFail rpc_error
  | GetTxReceiptFail receipt_error
  | TxStatusFailed hash

text \<open>
  How a step ends: with a value, with a returned error, with the process terminated by
  \<open>checkErr\<close> (\<open>log.Fatalf\<close>), or with a panic. \<open>and_then\<close> runs the next step after a value
  and stops at anything else, appending the traces.
\<close>

datatype 'a result = Ok 'a | Err error | Fatal rpc_error | Panic go_panic

fun and_then ::
  "event list \<times> 'a result \<Rightarrow> ('a \<Rightarrow> event list \<times> 'b result) \<Rightarrow> event list \<times> 'b result" where
  "and_then (tr, Ok x) f = (case f x of (tr', r) \<Rightarrow> (tr @ tr', r))"
| "and_then (tr, Err e) f = (tr, Err e)"
| "and_then (tr, Fatal e) f = (tr, Fatal e)"
| "and_then (tr, Panic p) f = (tr, Panic p)"


section \<open>Contract probe and receipt polling (common.go)\<close>

definition isContractAddress :: "node \<Rightarrow> address \<Rightarrow> event list \<times> (rpc_error + bool)" where
  "isContractAddress client address =
     ([CallCodeAt address],
      case CodeAt client address of
        Inl err \<Rightarrow> Inl err
      | Inr bytecode \<Rightarrow> (let isContract = (0 < length bytecode) in Inr isContract))"

text \<open>
  \<open>getTxReceipt\<close>: the loop from the label \<open>recheck\<close>. The state is the number of lookups
  made, the clock and the trace; a run that never leaves the loop has the value \<open>None\<close>.
  \<open>beginTime.Add(timeout).After(time.Now())\<close> is \<open>now < beginTime + timeout\<close>.
\<close>

partial_function (option) recheck ::
  "node \<Rightarrow> hash \<Rightarrow> int \<Rightarrow> int \<Rightarrow> nat \<Rightarrow> int \<Rightarrow> event list
     \<Rightarrow> (event list \<times> int \<times> (receipt_error + receipt)) option" where
  "recheck client txHash timeout beginTime n now tr =
     (case TransactionReceipt client txHash n of
        (d, res) \<Rightarrow>
          (let now1 = now + d; tr1 = tr @ [CallTransactionReceipt txHash]
           in case res of
                Found rp \<Rightarrow> Some (tr1, now1, Inr rp)
              | LookupFailed err \<Rightarrow> Some (tr1, now1, Inl (TransactionReceiptFail err))
              | NotFound \<Rightarrow>
                  (let tr2 = tr1 @ [Log (LogTxNotFound txHash)]
                   in if 0 < timeout \<and> now1 < beginTime + timeout
                      then Some (tr2, now1, Inl GetReceiptTimeout)
                      else recheck client txHash timeout beginTime (Suc n)
                             (now1 + 5000000000)
                             (tr2 @ [Log (LogRecheck txHash), Sleep 5000000000]))))"

definition getTxReceipt ::
  "node \<Rightarrow> hash \<Rightarrow> int \<Rightarrow> int \<Rightarrow> (event list \<times> int \<times> (receipt_error + receipt)) option" where
  "getTxReceipt client txHash timeout now =
     (let beginTime = now in recheck client txHash timeout beginTime 0 now [])"


section \<open>Decimal numbers (shopspring/decimal, as far as the code uses it)\<close>

text \<open>
  A \<open>decimal.Decimal\<close> is a coefficient and a power of ten: \<open>coef * 10 ^ exp\<close>, with \<open>exp\<close>
  an \<open>int32\<close>.
\<close>

datatype Decimal = Decimal (coef: int) (exp: int)

text \<open>
  \<open>strconv.ParseInt(s, 10, _)\<close> and \<open>(*big.Int).SetString(s, 10)\<close>: an optional sign and at
  least one decimal digit, nothing else.
\<close>

definition is_digit :: "char \<Rightarrow> bool" where
  "is_digit c = (c \<in> set ''0123456789'')"

definition digit_val :: "char \<Rightarrow> nat" where
  "digit_val c = of_char c - of_char CHR ''0''"

definition digits_val :: "string \<Rightarrow> nat" where
  "digits_val ds = foldl (\<lambda>acc c. 10 * acc + digit_val c) 0 ds"

definition parse_int :: "string \<Rightarrow> int option" where
  "parse_int s =
     (let neg = (s \<noteq> [] \<and> hd s = CHR ''-'');
          ds = (if s \<noteq> [] \<and> (hd s = CHR ''-'' \<or> hd s = CHR ''+'') then tl s else s)
      in if ds = [] \<or> \<not> list_all is_digit ds then None
         else Some (if neg then - int (digits_val ds) else int (digits_val ds)))"

text \<open>
  \<open>decimal.NewFromString\<close> (\<open>None\<close> is its error): an exponent after the first \<open>e\<close> or \<open>E\<close>,
  parsed as an \<open>int32\<close>; at most one point, removed from the mantissa; the digits after the
  point lower the exponent; the exponent must stay an \<open>int32\<close>.
\<close>

definition is_exp_mark :: "char \<Rightarrow> bool" where
  "is_exp_mark c = (c = CHR ''e'' \<or> c = CHR ''E'')"

definition NewFromString :: "string \<Rightarrow> Decimal option" where
  "NewFromString s =
     (let mant = takeWhile (\<lambda>c. \<not> is_exp_mark c) s;
          rest = dropWhile (\<lambda>c. \<not> is_exp_mark c) s;
          exp0 = (if rest = [] then Some 0
                  else (case parse_int (tl rest) of
                          None \<Rightarrow> None
                        | Some e \<Rightarrow> if e < - 2147483648 \<or> 2147483648 \<le> e then None else Some e))
      in case exp0 of
           None \<Rightarrow> None
         | Some e \<Rightarrow>
             (let ip = takeWhile (\<lambda>c. c \<noteq> CHR ''.'') mant;
                  after = dropWhile (\<lambda>c. c \<noteq> CHR ''.'') mant;
                  fp = (if after = [] then [] else tl after)
              in if CHR ''.'' \<in> set fp then None
                 else (case parse_int (ip @ fp) of
                         None \<Rightarrow> None
                       | Some dValue \<Rightarrow>
                           (let ex = e - int (length fp)
                            in if ex < - 2147483648 \<or> 2147483648 \<le> ex then None
                               else Some (Decimal dValue ex)))))"

text \<open>
  \<open>Decimal.Mul\<close> multiplies the coefficients and adds the exponents; \<open>Decimal.BigInt\<close>
  rescales to exponent 0, dividing with \<open>big.Int.Quo\<close>, which truncates towards zero.
\<close>

definition Mul :: "Decimal \<Rightarrow> Decimal \<Rightarrow> Decimal" where
  "Mul d d2 = Decimal (coef d * coef d2) (exp d + exp d2)"

definition BigInt :: "Decimal \<Rightarrow> int" where
  "BigInt d =
     (if 0 \<le> exp d then coef d * 10 ^ nat (exp d)
      else coef d sdiv 10 ^ nat (- exp d))"

text \<open>
  The conversion written twice in \<open>Transact\<close>, for either override: the error of
  \<open>NewFromString\<close> is dropped, so a string that does not parse counts as the zero value;
  then \<open>.Mul(decimal.RequireFromString("1000000000")).BigInt()\<close>.
\<close>

definition gweiToWei :: "string \<Rightarrow> int" where
  "gweiToWei s =
     (let d = (case NewFromString s of None \<Rightarrow> Decimal 0 0 | Some d \<Rightarrow> d)
      in BigInt (Mul d (Decimal 1000000000 0)))"


section \<open>Transact (common.go)\<close>

text \<open>
  \<open>Transact\<close> is modelled in the order of its source, cut into its steps; every step returns
  the trace of what it did and how it ended.

  The nonce: the pending nonce of the sender when the option is negative, else the option.
\<close>

definition Transact_nonce :: "globals \<Rightarrow> node \<Rightarrow> address \<Rightarrow> event list \<times> uint64 result" where
  "Transact_nonce g client fromAddress =
     (if sint (globalOptNonce g) < 0
      then ([CallPendingNonceAt fromAddress],
            case PendingNonceAt client fromAddress of
              Inl err \<Rightarrow> Err (PendingNonceAtFail err)
            | Inr nonce \<Rightarrow> Ok nonce)
      else ([], Ok (globalOptNonce g)))"

text \<open>The gas limit: the option when it is not 0, else the heuristic.\<close>

definition Transact_gasLimit ::
  "globals \<Rightarrow> node \<Rightarrow> address option \<Rightarrow> byte list \<Rightarrow> event list \<times> uint64 result" where
  "Transact_gasLimit g client toAddress data =
     (let gasLimit = globalOptGasLimit g
      in if gasLimit = 0
         then (let gasLimit = gasUsedByTransferEth g
               in case toAddress of
                    None \<Rightarrow> ([], Ok 7000000)
                  | Some a \<Rightarrow>
                      (case isContractAddress client a of
                         (tr, Inl err) \<Rightarrow> (tr, Err (IsContractAddressFail err))
                       | (tr, Inr isContract) \<Rightarrow>
                           (let gasLimit = (if isContract then 900000 else gasLimit);
                                gasLimit = (if 0 < length data then 900000 else gasLimit)
                            in (tr, Ok gasLimit))))
         else ([], Ok gasLimit))"

text \<open>The gas price, asked for whenever the caller passes \<open>nil\<close>; \<open>checkErr\<close> ends the
  process on an error.\<close>

definition Transact_gasPrice :: "node \<Rightarrow> int option \<Rightarrow> event list \<times> int result" where
  "Transact_gasPrice client gasPrice =
     (case gasPrice of
        None \<Rightarrow> ([CallGetGasPrice],
                  case getGasPrice client of Inl err \<Rightarrow> Fatal err | Inr p \<Rightarrow> Ok p)
      | Some p \<Rightarrow> ([], Ok p))"

text \<open>
  \<open>feeHistory.Reward[i][j]\<close> panics out of range. \<open>reward_mean rows j\<close> is the computation
  written three times in the source, for the columns 0 (\<open>slow\<close>), 1 (\<open>average\<close>) and 2
  (\<open>fast\<close>): the sum of the rows 0, 1 and 2 at that column, divided by 3 with \<open>big.Int.Div\<close>
  (Euclidean division, which for the divisor 3 is \<open>div\<close>).
\<close>

definition index2 :: "int list list \<Rightarrow> nat \<Rightarrow> nat \<Rightarrow> go_panic + int" where
  "index2 rows i j =
     (if i < length rows \<and> j < length (rows ! i) then Inr (rows ! i ! j)
      else Inl IndexOutOfRange)"

definition reward_mean :: "int list list \<Rightarrow> nat \<Rightarrow> go_panic + int" where
  "reward_mean rows j =
     (case index2 rows 0 j of
        Inl p \<Rightarrow> Inl p
      | Inr r0 \<Rightarrow>
          (case index2 rows 1 j of
             Inl p \<Rightarrow> Inl p
           | Inr r1 \<Rightarrow>
               (case index2 rows 2 j of
                  Inl p \<Rightarrow> Inl p
                | Inr r2 \<Rightarrow> Inr ((r0 + r1 + r2) div 3))))"

text \<open>
  The estimate from \<open>eth_feeHistory\<close> over 4 blocks with the percentiles 5, 50 and 95, and the
  base fee of the latest block (\<open>BlockByNumber\<close> with \<open>nil\<close>); \<open>big.Int.Add\<close> panics on a
  \<open>nil\<close> base fee.
\<close>

definition Transact_feeEstimate :: "node \<Rightarrow> event list \<times> (int \<times> int) result" where
  "Transact_feeEstimate client =
     (case FeeHistory client 4 [5, 50, 95] of
        Inl err \<Rightarrow> ([CallFeeHistory 4 [5, 50, 95]], Fatal err)
      | Inr feeHistory \<Rightarrow>
          (case reward_mean (Reward feeHistory) 0 of
             Inl p \<Rightarrow> ([CallFeeHistory 4 [5, 50, 95]], Panic p)
           | Inr slow \<Rightarrow>
          (case reward_mean (Reward feeHistory) 1 of
             Inl p \<Rightarrow> ([CallFeeHistory 4 [5, 50, 95]], Panic p)
           | Inr average \<Rightarrow>
          (case reward_mean (Reward feeHistory) 2 of
             Inl p \<Rightarrow> ([CallFeeHistory 4 [5, 50, 95]], Panic p)
           | Inr fast \<Rightarrow>
               (let maxPriorityFeePerGasEstimate = average
                in case BlockByNumber client of
                     Inl err \<Rightarrow> ([CallFeeHistory 4 [5, 50, 95], CallBlockByNumber], Fatal err)
                   | Inr pendingBlock \<Rightarrow>
                       (case BaseFee pendingBlock of
                          None \<Rightarrow> ([CallFeeHistory 4 [5, 50, 95], CallBlockByNumber],
                                    Panic NilPointerDereference)
                        | Some baseFee \<Rightarrow>
                            ([CallFeeHistory 4 [5, 50, 95], CallBlockByNumber],
                             Ok (maxPriorityFeePerGasEstimate,
                                 baseFee + maxPriorityFeePerGasEstimate))))))))"

text \<open>
  The two fees of a dynamic-fee transaction: the estimate is fetched when either option is
  empty (both estimates are \<open>new(big.Int)\<close>, that is 0, otherwise), and each fee is the
  estimate when its own option is empty, else the option converted from gwei.
\<close>

definition Transact_fees :: "globals \<Rightarrow> node \<Rightarrow> event list \<times> (int \<times> int) result" where
  "Transact_fees g client =
     and_then
       (if globalOptMaxPriorityFeePerGas g = [] \<or> globalOptMaxFeePerGas g = []
        then Transact_feeEstimate client
        else ([], Ok (0, 0)))
       (\<lambda>(maxPriorityFeePerGasEstimate, maxFeePerGasEstimate).
          (let maxPriorityFeePerGas =
                 (if globalOptMaxPriorityFeePerGas g = [] then maxPriorityFeePerGasEstimate
                  else gweiToWei (globalOptMaxPriorityFeePerGas g));
               maxFeePerGas =
                 (if globalOptMaxFeePerGas g = [] then maxFeePerGasEstimate
                  else gweiToWei (globalOptMaxFeePerGas g))
           in ([], Ok (maxPriorityFeePerGas, maxFeePerGas))))"

text \<open>The local variables of \<open>Transact\<close> that the later steps read, once \<open>tx\<close> is built.\<close>

record built =
  b_fromAddress :: address
  b_nonce :: uint64
  b_gasLimit :: uint64
  b_gasPrice :: int
  b_tx :: tx

definition Transact_buildTx ::
  "globals \<Rightarrow> node \<Rightarrow> 'stx ethlib \<Rightarrow> privateKey \<Rightarrow> address option \<Rightarrow> int \<Rightarrow> int option
     \<Rightarrow> byte list \<Rightarrow> event list \<times> built result" where
  "Transact_buildTx g client lib privateKey toAddress amount gasPrice0 data =
     (let fromAddr = PubkeyToAddress lib privateKey
      in and_then (Transact_nonce g client fromAddr) (\<lambda>nonce.
         and_then (Transact_gasLimit g client toAddress data) (\<lambda>gasLimit.
         and_then (Transact_gasPrice client gasPrice0) (\<lambda>gasPrice.
           if globalOptTxType g = txTypeEip1559 g
           then and_then (Transact_fees g client) (\<lambda>(maxPriorityFeePerGas, maxFeePerGas).
                  ([], Ok \<lparr>b_fromAddress = fromAddr, b_nonce = nonce, b_gasLimit = gasLimit,
                           b_gasPrice = gasPrice,
                           b_tx = DynamicFeeTx nonce toAddress amount gasLimit
                                  maxPriorityFeePerGas maxFeePerGas data\<rparr>))
           else ([], Ok \<lparr>b_fromAddress = fromAddr, b_nonce = nonce, b_gasLimit = gasLimit,
                          b_gasPrice = gasPrice,
                          b_tx = LegacyTx nonce toAddress amount gasLimit gasPrice data\<rparr>)))))"

text \<open>\<open>GenRawTx\<close> and \<open>SendRawTransaction\<close>.\<close>

definition GenRawTx :: "'stx ethlib \<Rightarrow> 'stx \<Rightarrow> rpc_error + string" where
  "GenRawTx lib signedTx =
     (case MarshalBinary lib signedTx of
        Inl err \<Rightarrow> Inl err
      | Inr data \<Rightarrow> Inr (hexutil_Encode data))"

definition SendRawTransaction ::
  "node \<Rightarrow> 'stx ethlib \<Rightarrow> 'stx \<Rightarrow> event list \<times> (rpc_error + hash)" where
  "SendRawTransaction rpcClient lib signedTx =
     (case GenRawTx lib signedTx of
        Inl err \<Rightarrow> ([], Inl err)
      | Inr rawTx \<Rightarrow>
          ([CallSendRawTransaction rawTx],
           case eth_sendRawTransaction rpcClient rawTx of
             Inl err \<Rightarrow> Inl err
           | Inr res \<Rightarrow> Inr (BytesToHash res)))"

text \<open>
  From \<open>client.NetworkID\<close> to the optional gas simulation: the chain id, the signature, the
  optional log of the raw transaction (an error of \<open>GenRawTx\<close> is dropped there and leaves
  the empty string), the optional \<open>EstimateGas\<close>.
\<close>

definition Transact_sign ::
  "globals \<Rightarrow> node \<Rightarrow> 'stx ethlib \<Rightarrow> privateKey \<Rightarrow> address option \<Rightarrow> int \<Rightarrow> byte list
     \<Rightarrow> built \<Rightarrow> event list \<times> 'stx result" where
  "Transact_sign g client lib privateKey toAddress amount data b =
     (case NetworkID client of
        Inl err \<Rightarrow> ([CallNetworkID], Err (NetworkIDFail err))
      | Inr chainID \<Rightarrow>
          (case SignTx lib (b_tx b) chainID privateKey of
             Inl err \<Rightarrow> ([CallNetworkID], Err (SignTxFail err))
           | Inr signedTx \<Rightarrow>
               (let tr1 = [CallNetworkID] @
                      (if globalOptShowRawTx g
                       then [Log (LogRawTx (case GenRawTx lib signedTx of
                                              Inl err \<Rightarrow> [] | Inr rawTx \<Rightarrow> rawTx))]
                       else [])
                in if globalOptShowEstimateGas g
                   then (let msg = CallMsg (b_fromAddress b) toAddress (b_gasLimit b) (b_gasPrice b)
                                     amount data
                         in case EstimateGas client msg of
                              Inl err \<Rightarrow> (tr1 @ [CallEstimateGas msg], Err (EstimateGasFail err))
                            | Inr gas \<Rightarrow>
                                (tr1 @ [CallEstimateGas msg, Log (LogEstimateGas gas)],
                                 Ok signedTx))
                   else (tr1, Ok signedTx))))"

text \<open>
  The explorer line: the first entry of \<open>nodeUrlMap\<close> whose value is the node URL (the order
  in which Go ranges over a map is not specified; the model takes the order of the list).
\<close>

definition explorer_log :: "globals \<Rightarrow> hash \<Rightarrow> event list" where
  "explorer_log g h =
     (if globalOptTerseOutput g then []
      else (case find (\<lambda>(k, v). v = globalOptNodeUrl g) (nodeUrlMap g) of
              None \<Rightarrow> []
            | Some (k, v) \<Rightarrow> [Log (LogExplorerUrl (nodeTxExplorerUrlMap g k @ Hash_String h))]))"

text \<open>
  From the dry-run test to the end: broadcast, the comparison of the two hashes, the optional
  early return, the wait for the receipt with timeout 0, the status of the receipt.
  \<open>now\<close> is the reading of the clock when \<open>getTxReceipt\<close> starts.
\<close>

definition Transact_confirm ::
  "globals \<Rightarrow> node \<Rightarrow> 'stx ethlib \<Rightarrow> int \<Rightarrow> address option \<Rightarrow> built \<Rightarrow> 'stx
     \<Rightarrow> (event list \<times> string result) option" where
  "Transact_confirm g client lib now toAddress b signedTx =
     (if globalOptDryRun g then Some ([], Ok (Hash_String (TxHash lib signedTx)))
      else (case SendRawTransaction client lib signedTx of
              (tr1, Inl err) \<Rightarrow> Some (tr1, Err (SendRawTransactionFail err))
            | (tr1, Inr rpcReturnTx) \<Rightarrow>
                (let tr2 = tr1 @
                       (if TxHash lib signedTx \<noteq> rpcReturnTx
                        then [Log (WarnTxNotSame (TxHash lib signedTx) rpcReturnTx)]
                        else [])
                 in if transferNotCheck g then Some (tr2, Ok (Hash_String rpcReturnTx))
                    else (case getTxReceipt client rpcReturnTx 0 now of
                            None \<Rightarrow> None
                          | Some (tr3, now', Inl err) \<Rightarrow>
                              Some (tr2 @ tr3, Err (GetTxReceiptFail err))
                          | Some (tr3, now', Inr rp) \<Rightarrow>
                              (let tr4 = tr2 @ tr3 @ explorer_log g rpcReturnTx
                               in if Status rp \<noteq> ReceiptStatusSuccessful
                                  then Some (tr4, Err (TxStatusFailed rpcReturnTx))
                                  else Some (tr4 @
                                         (if toAddress = None
                                          then [Log (LogContractDeployed
                                                  (CreateAddress lib (b_fromAddress b) (b_nonce b)))]
                                          else []),
                                         Ok (Hash_String rpcReturnTx)))))))"

text \<open>\<open>Transact\<close>: the steps in sequence.\<close>

definition Transact ::
  "globals \<Rightarrow> node \<Rightarrow> 'stx ethlib \<Rightarrow> int \<Rightarrow> privateKey \<Rightarrow> address option \<Rightarrow> int \<Rightarrow> int option
     \<Rightarrow> byte list \<Rightarrow> (event list \<times> string result) option" where
  "Transact g client lib now privateKey toAddress amount gasPrice0 data =
     (case Transact_buildTx g client lib privateKey toAddress amount gasPrice0 data of
        (tr1, Err e) \<Rightarrow> Some (tr1, Err e)
      | (tr1, Fatal e) \<Rightarrow> Some (tr1, Fatal e)
      | (tr1, Panic p) \<Rightarrow> Some (tr1, Panic p)
      | (tr1, Ok b) \<Rightarrow>
          (case Transact_sign g client lib privateKey toAddress amount data b of
             (tr2, Err e) \<Rightarrow> Some (tr1 @ tr2, Err e)
           | (tr2, Fatal e) \<Rightarrow> Some (tr1 @ tr2, Fatal e)
           | (tr2, Panic p) \<Rightarrow> Some (tr1 @ tr2, Panic p)
           | (tr2, Ok signedTx) \<Rightarrow>
               (case Transact_confirm g client lib now toAddress b signedTx of
                  None \<Rightarrow> None
                | Some (tr3, r) \<Rightarrow> Some (tr1 @ tr2 @ tr3, r))))"


section \<open>Observations on traces\<close>

fun is_send :: "event \<Rightarrow> bool" where
  "is_send (CallSendRawTransaction raw) = True"
| "is_send e = False"

fun is_receipt_poll :: "event \<Rightarrow> bool" where
  "is_receipt_poll (CallTransactionReceipt h) = True"
| "is_receipt_poll e = False"

fun is_fee_history :: "event \<Rightarrow> bool" where
  "is_fee_history (CallFeeHistory n ps) = True"
| "is_fee_history e = False"

fun is_sleep :: "event \<Rightarrow> bool" where
  "is_sleep (Sleep d) = True"
| "is_sleep e = False"

text \<open>The number of waits in a trace.\<close>

definition waits :: "event list \<Rightarrow> nat" where
  "waits tr = length (filter is_sleep tr)"

section \<open>The words of the specification\<close>

text \<open>
  A decimal numeral written out: an optional minus sign, the digits before the point and, when
  there are any, a point and the digits after it; and the number it denotes.
\<close>

definition decimal_string :: "bool \<Rightarrow> string \<Rightarrow> string \<Rightarrow> string" where
  "decimal_string neg ip fp =
     (if neg then ''-'' else []) @ ip @ (if fp = [] then [] else CHR ''.'' # fp)"

definition decimal_value :: "bool \<Rightarrow> string \<Rightarrow> string \<Rightarrow> real" where
  "decimal_value neg ip fp =
     (if neg then - 1 else 1) * (real (digits_val ip) + real (digits_val fp) / 10 ^ length fp)"

text \<open>
  The priority fee as the specification words it: the average of the 50th-percentile reward
  (column 1) over the three most recent blocks, which are the last three rows of \<open>Reward\<close>.
\<close>

definition spec_priority_fee :: "int list list \<Rightarrow> int" where
  "spec_priority_fee rows =
     (let recent = drop (length rows - 3) rows
      in sum_list (map (\<lambda>row. row ! 1) recent) div 3)"

section \<open>A small concrete world\<close>

text \<open>
  One node, one library and a family of options to run the model on. The node misses the
  receipt once and then has it; it answers the broadcast with the single byte 1, so the hash
  it echoes differs from the hash the library computes; the fee history has the rewards of
  four blocks, the latest of them higher than the others.
\<close>

definition demo_history :: feeHistory where
  "demo_history =
     \<lparr>Reward = [[1, 10, 100], [1, 10, 100], [1, 10, 100], [1, 40, 100]],
      BaseFeePerGas = [100, 100, 100, 100, 100]\<rparr>"

definition demo_node :: node where
  "demo_node =
     \<lparr>PendingNonceAt = (\<lambda>a. Inr 7), CodeAt = (\<lambda>a. Inr []), getGasPrice = Inr 1000000000,
      FeeHistory = (\<lambda>n ps. Inr demo_history),
      BlockByNumber = Inr \<lparr>BaseFee = Some 100\<rparr>, NetworkID = Inr 1,
      EstimateGas = (\<lambda>m. Inr 21000), eth_sendRawTransaction = (\<lambda>raw. Inr [1]),
      TransactionReceipt = (\<lambda>h n. (0, if n = 0 then NotFound else Found \<lparr>Status = 1\<rparr>))\<rparr>"

definition demo_lib :: "tx ethlib" where
  "demo_lib =
     \<lparr>PubkeyToAddress = (\<lambda>k. replicate 20 0), SignTx = (\<lambda>t c k. Inr t),
      TxHash = (\<lambda>t. replicate 31 0 @ [2]), MarshalBinary = (\<lambda>t. Inr [3]),
      CreateAddress = (\<lambda>a n. replicate 20 0)\<rparr>"

text \<open>The options: automatic nonce, dynamic fees, no logging; the gas-limit override, the two
  fee overrides, the dry-run flag and the skip-confirmation flag are left open.\<close>

definition demo_options :: "uint64 \<Rightarrow> string \<Rightarrow> string \<Rightarrow> bool \<Rightarrow> bool \<Rightarrow> globals" where
  "demo_options gl prio maxfee dry nocheck =
     \<lparr>globalOptNonce = - 1, globalOptGasLimit = gl, globalOptTxType = ''eip1559'',
      globalOptMaxPriorityFeePerGas = prio, globalOptMaxFeePerGas = maxfee,
      globalOptShowRawTx = False, globalOptShowEstimateGas = False, globalOptDryRun = dry,
      globalOptTerseOutput = True, globalOptNodeUrl = [], transferNotCheck = nocheck,
      txTypeEip1559 = ''eip1559'', gasUsedByTransferEth = 21000, nodeUrlMap = [],
      nodeTxExplorerUrlMap = (\<lambda>k. [])\<rparr>"


section \<open>Properties of the recovery id\<close>

lemma Int64_eq: "Int64 x = word_of_int x"
  by (simp add: Int64_def Let_def abs_if)

lemma sint_Int64: "- (2 ^ 63) \<le> x \<Longrightarrow> x < 2 ^ 63 \<Longrightarrow> sint (Int64 x) = x"
  by (simp add: Int64_eq sint_sbintrunc' signed_take_bit_int_eq_self_iff)

lemma Int64_eq_iff:
  assumes "- (2 ^ 63) \<le> x" "x < 2 ^ 63" "- (2 ^ 63) \<le> y" "y < 2 ^ 63"
  shows "Int64 x = Int64 y \<longleftrightarrow> x = y"
  using assms sint_Int64 by metis

lemma Int64_numeral_iff:
  assumes "0 \<le> x" "x < 2 ^ 63"
  shows "Int64 x = 0 \<longleftrightarrow> x = 0" "Int64 x = 1 \<longleftrightarrow> x = 1"
    "Int64 x = 27 \<longleftrightarrow> x = 27" "Int64 x = 28 \<longleftrightarrow> x = 28"
proof -
  have r: "- (2 ^ 63) \<le> x" using assms by simp
  show "Int64 x = 0 \<longleftrightarrow> x = 0"
    using Int64_eq_iff [OF r assms(2), of 0] by (simp add: Int64_eq)
  show "Int64 x = 1 \<longleftrightarrow> x = 1"
    using Int64_eq_iff [OF r assms(2), of 1] by (simp add: Int64_eq)
  show "Int64 x = 27 \<longleftrightarrow> x = 27"
    using Int64_eq_iff [OF r assms(2), of 27] by (simp add: Int64_eq)
  show "Int64 x = 28 \<longleftrightarrow> x = 28"
    using Int64_eq_iff [OF r assms(2), of 28] by (simp add: Int64_eq)
qed

lemma quo64_nonneg:
  assumes "0 \<le> y" "y < 2 ^ 63"
  shows "quo64 (Int64 y) 2 = Int64 (y div 2)"
proof -
  have "sint (Int64 y) = y" using assms by (simp add: sint_Int64)
  moreover have "y sdiv 2 = y div 2"
    using assms by (simp add: signed_divide_int_def sgn_if)
  ultimately show ?thesis by (simp add: quo64_def Int64_eq)
qed

lemma getRecoveryId_eip155:
  assumes "35 \<le> v" "v < 2 ^ 63"
  shows "sint (getRecoveryId v) = v - 35 - 2 * ((v - 35) div 2)"
proof -
  have nz: "Int64 v \<noteq> 0" "Int64 v \<noteq> 1" "Int64 v \<noteq> 27" "Int64 v \<noteq> 28"
    using assms Int64_numeral_iff [of v] by auto
  have sub: "Int64 v - 35 = Int64 (v - 35)" by (simp add: Int64_eq)
  have q: "quo64 (Int64 (v - 35)) 2 = Int64 ((v - 35) div 2)"
    using assms by (intro quo64_nonneg) auto
  have "getRecoveryId v = Int64 (v - 35) - 2 * Int64 ((v - 35) div 2)"
    using nz by (simp add: getRecoveryId_def sub q)
  also have "\<dots> = Int64 (v - 35 - 2 * ((v - 35) div 2))" by (simp add: Int64_eq)
  finally have "sint (getRecoveryId v) = sint (Int64 (v - 35 - 2 * ((v - 35) div 2)))" by simp
  also have "\<dots> = v - 35 - 2 * ((v - 35) div 2)"
  proof (rule sint_Int64)
    have "v - 35 - 2 * ((v - 35) div 2) = (v - 35) mod 2"
      by (simp add: minus_mult_div_eq_mod)
    then show "- (2 ^ 63) \<le> v - 35 - 2 * ((v - 35) div 2)"
      and "v - 35 - 2 * ((v - 35) div 2) < 2 ^ 63" by simp_all
  qed
  finally show ?thesis .
qed

lemma getRecoveryId_small:
  assumes "v = 0 \<or> v = 1"
  shows "sint (getRecoveryId v) = v"
  using assms by (auto simp: getRecoveryId_def Int64_eq)

lemma getRecoveryId_legacy:
  assumes "v = 27 \<or> v = 28"
  shows "sint (getRecoveryId v) = v - 27"
  using assms by (auto simp: getRecoveryId_def Int64_eq)


text \<open>
  Claim C3 (recovery id always in {0,1}): the function's own comment promises "0 or 1", but the
  EIP-155 branch divides with Go's truncating \<open>/\<close>, so an even \<open>v\<close> below 35 that is not
  0 or 28 yields \<open>-1\<close>. At \<open>v = 2\<close>: \<open>(2 - 35) / 2 = -16\<close> and \<open>2 - 35 + 32 = -1\<close>; the byte
  appended to the signature is then \<open>0xff\<close>.
\<close>

theorem getRecoveryId_two_is_minus_one:
  "sint (getRecoveryId 2) = - 1
   \<and> sint (getRecoveryId 2) \<notin> {0, 1}
   \<and> (ucast (getRecoveryId 2) :: byte) = 255"
proof -
  have g: "getRecoveryId 2 = - 1"
    by (simp add: getRecoveryId_def Int64_def quo64_def signed_divide_int_def)
  have b: "(ucast (- 1 :: int64) :: byte) = 255"
    by (simp add: word_eq_iff_unsigned [where ?'a = nat] unsigned_ucast_eq
        unsigned_minus_1_eq_mask mask_eq_exp_minus_1 take_bit_eq_mod)
  show ?thesis by (simp add: g b)
qed

text \<open>
  Claim C4 (the value of the recovery id), for every \<open>v\<close> below \<open>2 ^ 63\<close>, the range in which
  \<open>Int64\<close> reads \<open>v\<close> itself: \<open>v\<close> for 0 and 1, \<open>v - 27\<close> for 27 and 28, and
  \<open>v - 35 - 2 * floor((v - 35) / 2)\<close> from 35 on, which is 0 at \<open>35 + 2k\<close> and 1 at \<open>36 + 2k\<close>.
\<close>

theorem getRecoveryId_value:
  assumes "v < 2 ^ 63"
  shows "(v \<in> {0, 1} \<longrightarrow> sint (getRecoveryId v) = v)
       \<and> (v \<in> {27, 28} \<longrightarrow> sint (getRecoveryId v) = v - 27)
       \<and> (35 \<le> v \<longrightarrow> sint (getRecoveryId v) = v - 35 - 2 * ((v - 35) div 2))
       \<and> (\<forall>k\<ge>0. v = 35 + 2 * k \<longrightarrow> sint (getRecoveryId v) = 0)
       \<and> (\<forall>k\<ge>0. v = 36 + 2 * k \<longrightarrow> sint (getRecoveryId v) = 1)"
proof (intro conjI impI allI)
  show "sint (getRecoveryId v) = v" if "v \<in> {0, 1}"
    using that getRecoveryId_small [of v] by auto
  show "sint (getRecoveryId v) = v - 27" if "v \<in> {27, 28}"
    using that getRecoveryId_legacy [of v] by auto
  show "sint (getRecoveryId v) = v - 35 - 2 * ((v - 35) div 2)" if "35 \<le> v"
    using that assms by (rule getRecoveryId_eip155)
  show "sint (getRecoveryId v) = 0" if "0 \<le> k" "v = 35 + 2 * k" for k
  proof -
    have "35 \<le> v" using that by simp
    then have "sint (getRecoveryId v) = v - 35 - 2 * ((v - 35) div 2)"
      using assms by (rule getRecoveryId_eip155)
    then show ?thesis using that by simp
  qed
  show "sint (getRecoveryId v) = 1" if "0 \<le> k" "v = 36 + 2 * k" for k
  proof -
    have "35 \<le> v" using that by simp
    then have "sint (getRecoveryId v) = v - 35 - 2 * ((v - 35) div 2)"
      using assms by (rule getRecoveryId_eip155)
    moreover have "v - 35 = 2 * k + 1" using that by simp
    ultimately show ?thesis by simp
  qed
qed

theorem getRecoveryId_value_witness:
  "(37::int) < 2 ^ 63 \<and> (38::int) < 2 ^ 63 \<and> (1::int) < 2 ^ 63 \<and> (27::int) < 2 ^ 63
   \<and> sint (getRecoveryId 37) = 0 \<and> sint (getRecoveryId 38) = 1
   \<and> sint (getRecoveryId 1) = 1 \<and> sint (getRecoveryId 27) = 0"
proof -
  have a: "(37::int) < 2 ^ 63" and b: "(38::int) < 2 ^ 63"
    and c: "(1::int) < 2 ^ 63" and d: "(27::int) < 2 ^ 63" by simp_all
  have "sint (getRecoveryId 37) = 0"
    using getRecoveryId_value [OF a] by simp
  moreover have "sint (getRecoveryId 38) = 1"
    using getRecoveryId_value [OF b] by simp
  moreover have "sint (getRecoveryId 1) = 1"
    using getRecoveryId_value [OF c] by simp
  moreover have "sint (getRecoveryId 27) = 0"
    using getRecoveryId_value [OF d] by simp
  ultimately show ?thesis using a b c d by simp
qed

text \<open>
  Beyond the \<open>int64\<close> range the claim fails as stated: \<open>2 ^ 64 = 36 + 2k\<close> with
  \<open>k = 2 ^ 63 - 18\<close> is of the EIP-155 form with recovery id 1, but its low 64 bits are 0, so the
  first branch answers 0.
\<close>

theorem getRecoveryId_beyond_int64_counterexample:
  "(2::int) ^ 64 = 36 + 2 * (2 ^ 63 - 18) \<and> (0::int) \<le> 2 ^ 63 - 18
   \<and> (2::int) ^ 64 \<notin> {0, 1, 27, 28}
   \<and> sint (getRecoveryId (2 ^ 64)) = 0
   \<and> sint (getRecoveryId (2 ^ 64)) \<noteq> 1"
  by (simp add: getRecoveryId_def Int64_def)


section \<open>Properties of the compact signature\<close>

lemma copy_from_pad:
  assumes "length src \<le> n"
  shows "copy_from (make_bytes n) (int n - int (length src)) src
           = Inr (replicate (n - length src) 0 @ src)"
proof -
  have off: "nat (int n - int (length src)) = n - length src"
    using assms by linarith
  have low: "\<not> (int n - int (length src) < 0)" using assms by simp
  show ?thesis
    using assms by (simp add: copy_from_def make_bytes_def Let_def off low)
qed

lemma copy_from_panic:
  assumes "n < length src"
  shows "copy_from (make_bytes n) (int n - int (length src)) src = Inl SliceBoundsOutOfRange"
  using assms by (simp add: copy_from_def)

lemma be_value_append: "be_value (xs @ ys) = be_value xs * 256 ^ length ys + be_value ys"
  by (induction xs) (simp_all add: power_add algebra_simps)

lemma be_value_replicate0: "be_value (replicate k 0) = 0"
  by (induction k) simp_all

lemma be_value_padded: "be_value (replicate k 0 @ bs) = be_value bs"
  by (simp add: be_value_append be_value_replicate0)

lemma be_value_Bytes_nat: "be_value (Bytes_nat n) = n"
proof (induction n rule: Bytes_nat.induct)
  case (1 n)
  show ?case
  proof (cases "n = 0")
    case True
    then show ?thesis by (subst Bytes_nat.simps) simp
  next
    case False
    have "unat (of_nat (n mod 256) :: byte) = n mod 256"
      by (simp add: unat_of_nat take_bit_eq_mod)
    with False 1 show ?thesis
      by (subst Bytes_nat.simps) (simp add: be_value_append)
  qed
qed

lemma length_Bytes_nat_le: "length (Bytes_nat n) \<le> k \<longleftrightarrow> n < 256 ^ k"
proof (induction n arbitrary: k rule: Bytes_nat.induct)
  case (1 n)
  show ?case
  proof (cases "n = 0")
    case True
    then show ?thesis by (subst Bytes_nat.simps) simp
  next
    case False
    show ?thesis
    proof (cases k)
      case 0
      with False show ?thesis by (subst Bytes_nat.simps) simp
    next
      case (Suc j)
      have "length (Bytes_nat n) = Suc (length (Bytes_nat (n div 256)))"
        using False by (subst Bytes_nat.simps) simp
      moreover have "n div 256 < 256 ^ j \<longleftrightarrow> n < 256 ^ Suc j"
        by (simp add: div_less_iff_less_mult mult.commute)
      ultimately show ?thesis using 1 [OF False, of j] Suc by simp
    qed
  qed
qed

lemma Bytes_fits_iff: "length (Bytes x) \<le> 32 \<longleftrightarrow> \<bar>x\<bar> < 2 ^ 256"
proof -
  have "length (Bytes x) \<le> 32 \<longleftrightarrow> nat \<bar>x\<bar> < 256 ^ 32"
    by (simp add: Bytes_def length_Bytes_nat_le)
  also have "\<dots> \<longleftrightarrow> \<bar>x\<bar> < 2 ^ 256"
    by (simp add: nat_less_iff)
  finally show ?thesis .
qed

lemma buildECDSASignature_ok:
  assumes "length (Bytes r) \<le> 32" "length (Bytes s) \<le> 32"
  shows "buildECDSASignature v r s =
           Inr ((replicate (32 - length (Bytes r)) 0 @ Bytes r)
                @ (replicate (32 - length (Bytes s)) 0 @ Bytes s)
                @ [ucast (getRecoveryId v)])"
  using copy_from_pad [OF assms(1)] copy_from_pad [OF assms(2)]
  by (simp add: buildECDSASignature_def Let_def)

lemma buildECDSASignature_panics:
  assumes "32 < length (Bytes r) \<or> 32 < length (Bytes s)"
  shows "buildECDSASignature v r s = Inl SliceBoundsOutOfRange"
proof (cases "32 < length (Bytes r)")
  case True
  then show ?thesis
    using copy_from_panic [of 32 "Bytes r"]
    by (simp add: buildECDSASignature_def Let_def)
next
  case False
  then have r: "length (Bytes r) \<le> 32" and s: "32 < length (Bytes s)"
    using assms by auto
  show ?thesis
    using copy_from_pad [OF r] copy_from_panic [OF s]
    by (simp add: buildECDSASignature_def Let_def)
qed

text \<open>
  Claim C5 (layout of the compact signature): when the encodings of \<open>r\<close> and \<open>s\<close> have at most
  32 bytes each, the result has exactly 65 bytes; bytes [0,32) are \<open>r\<close> padded with zeros on the
  left, bytes [32,64) are \<open>s\<close> padded likewise (so either field read as a big-endian number is
  the magnitude of \<open>r\<close>, of \<open>s\<close>), and the last byte is the recovery id derived from \<open>v\<close>.
\<close>

theorem buildECDSASignature_layout:
  assumes "length (Bytes r) \<le> 32" and "length (Bytes s) \<le> 32"
  shows "\<exists>sig. buildECDSASignature v r s = Inr sig
           \<and> length sig = 65
           \<and> take 32 sig = replicate (32 - length (Bytes r)) 0 @ Bytes r
           \<and> take 32 (drop 32 sig) = replicate (32 - length (Bytes s)) 0 @ Bytes s
           \<and> be_value (take 32 sig) = nat \<bar>r\<bar>
           \<and> be_value (take 32 (drop 32 sig)) = nat \<bar>s\<bar>
           \<and> drop 64 sig = [ucast (getRecoveryId v)]"
proof -
  define R where "R = replicate (32 - length (Bytes r)) 0 @ Bytes r"
  define S where "S = replicate (32 - length (Bytes s)) 0 @ Bytes s"
  have lR: "length R = 32" and lS: "length S = 32"
    using assms by (simp_all add: R_def S_def)
  have vR: "be_value R = nat \<bar>r\<bar>" and vS: "be_value S = nat \<bar>s\<bar>"
    by (simp_all add: R_def S_def be_value_padded Bytes_def be_value_Bytes_nat)
  have "buildECDSASignature v r s = Inr (R @ S @ [ucast (getRecoveryId v)])"
    unfolding R_def S_def using assms by (rule buildECDSASignature_ok)
  moreover have "length (R @ S @ [ucast (getRecoveryId v)]) = 65"
    by (simp add: lR lS)
  moreover have "take 32 (R @ S @ [ucast (getRecoveryId v)]) = R"
    by (simp add: lR)
  moreover have "take 32 (drop 32 (R @ S @ [ucast (getRecoveryId v)])) = S"
    by (simp add: lR lS)
  moreover have "drop 64 (R @ S @ [ucast (getRecoveryId v)]) = [ucast (getRecoveryId v)]"
    by (simp add: lR lS)
  ultimately show ?thesis
    using vR vS unfolding R_def [symmetric] S_def [symmetric] by simp
qed

theorem buildECDSASignature_layout_witness:
  "length (Bytes 258) \<le> 32 \<and> length (Bytes 5) \<le> 32
   \<and> (\<exists>sig. buildECDSASignature 28 258 5 = Inr sig \<and> length sig = 65
          \<and> take 32 sig = replicate 30 0 @ [1, 2]
          \<and> take 32 (drop 32 sig) = replicate 31 0 @ [5]
          \<and> be_value (take 32 sig) = 258
          \<and> be_value (take 32 (drop 32 sig)) = 5
          \<and> drop 64 sig = [1])"
proof -
  have b1: "Bytes 258 = [1, 2]" and b2: "Bytes 5 = [5]"
    by (simp_all add: Bytes_def Bytes_nat.simps)
  have r: "length (Bytes 258) \<le> 32" and s: "length (Bytes 5) \<le> 32"
    by (simp_all add: b1 b2)
  have g: "getRecoveryId 28 = 1" by (simp add: getRecoveryId_def Int64_def)
  show ?thesis
    using r s buildECDSASignature_layout [OF r s, of 28] by (simp add: b1 b2 g)
qed

text \<open>
  Claim C10 (the only panic): an encoding of \<open>r\<close> or of \<open>s\<close> longer than 32 bytes makes the
  slice expression \<open>rBytes[32-len:]\<close> panic, in \<open>buildECDSASignature\<close> and so in
  \<open>RecoverPubkey\<close>, before the curve primitive is reached; when both encodings have at most 32
  bytes the signature is built and \<open>RecoverPubkey\<close> returns what the primitive returns.
\<close>

theorem buildECDSASignature_panics_iff_too_long:
  "(32 < length (Bytes r) \<or> 32 < length (Bytes s) \<longrightarrow>
      buildECDSASignature v r s = Inl SliceBoundsOutOfRange
      \<and> RecoverPubkey Ecrecover v r s msg = Inl SliceBoundsOutOfRange)
   \<and> (length (Bytes r) \<le> 32 \<and> length (Bytes s) \<le> 32 \<longrightarrow>
      (\<exists>sig. buildECDSASignature v r s = Inr sig
             \<and> RecoverPubkey Ecrecover v r s msg = Inr (Ecrecover msg sig)))"
proof (intro conjI impI)
  assume big: "32 < length (Bytes r) \<or> 32 < length (Bytes s)"
  then show "buildECDSASignature v r s = Inl SliceBoundsOutOfRange"
    by (rule buildECDSASignature_panics)
  then show "RecoverPubkey Ecrecover v r s msg = Inl SliceBoundsOutOfRange"
    by (simp add: RecoverPubkey_def)
next
  assume "length (Bytes r) \<le> 32 \<and> length (Bytes s) \<le> 32"
  then show "\<exists>sig. buildECDSASignature v r s = Inr sig
             \<and> RecoverPubkey Ecrecover v r s msg = Inr (Ecrecover msg sig)"
    by (simp add: buildECDSASignature_ok RecoverPubkey_def)
qed

theorem buildECDSASignature_panics_iff_too_long_witness:
  "32 < length (Bytes (2 ^ 256))
   \<and> buildECDSASignature 27 (2 ^ 256) 1 = Inl SliceBoundsOutOfRange
   \<and> RecoverPubkey (\<lambda>m sg. (Inr sg :: unit + byte list)) 27 (2 ^ 256) 1 []
       = Inl SliceBoundsOutOfRange
   \<and> length (Bytes (2 ^ 256 - 1)) \<le> 32 \<and> length (Bytes 1) \<le> 32
   \<and> (\<exists>sig. buildECDSASignature 27 (2 ^ 256 - 1) 1 = Inr sig)"
proof -
  have big: "32 < length (Bytes (2 ^ 256))"
    using Bytes_fits_iff [of "2 ^ 256"] by simp
  have ok: "length (Bytes (2 ^ 256 - 1)) \<le> 32" "length (Bytes 1) \<le> 32"
    using Bytes_fits_iff [of "2 ^ 256 - 1"] Bytes_fits_iff [of 1] by simp_all
  show ?thesis
    using big ok
      buildECDSASignature_panics_iff_too_long
        [of "2 ^ 256" 1 27 "\<lambda>m sg. (Inr sg :: unit + byte list)" "[]"]
      buildECDSASignature_panics_iff_too_long
        [of "2 ^ 256 - 1" 1 27 "\<lambda>m sg. (Inr sg :: unit + byte list)" "[]"]
    by blast
qed


section \<open>Properties of the receipt poller\<close>

lemma recheck_found:
  assumes "TransactionReceipt client h n = (d, Found rp)"
  shows "recheck client h timeout b n now tr
           = Some (tr @ [CallTransactionReceipt h], now + d, Inr rp)"
  using assms by (subst recheck.simps) simp

lemma recheck_not_found_unbounded:
  assumes "TransactionReceipt client h n = (d, NotFound)"
  shows "recheck client h 0 b n now tr
           = recheck client h 0 b (Suc n) (now + d + 5000000000)
               (tr @ [CallTransactionReceipt h, Log (LogTxNotFound h), Log (LogRecheck h),
                      Sleep 5000000000])"
  using assms by (subst recheck.simps) simp

lemma recheck_not_found_early:
  assumes "TransactionReceipt client h n = (d, NotFound)"
    and "0 < timeout" and "now + d < b + timeout"
  shows "recheck client h timeout b n now tr
           = Some (tr @ [CallTransactionReceipt h, Log (LogTxNotFound h)], now + d,
                   Inl GetReceiptTimeout)"
  using assms by (subst recheck.simps) simp

lemma recheck_not_found_late:
  assumes "TransactionReceipt client h n = (d, NotFound)"
    and "0 < timeout" and "b + timeout \<le> now + d"
  shows "recheck client h timeout b n now tr
           = recheck client h timeout b (Suc n) (now + d + 5000000000)
               (tr @ [CallTransactionReceipt h, Log (LogTxNotFound h), Log (LogRecheck h),
                      Sleep 5000000000])"
  using assms by (subst recheck.simps) simp

lemma waits_append: "waits (xs @ ys) = waits xs + waits ys"
  by (simp add: waits_def)

lemma recheck_unbounded:
  assumes "\<forall>i<K. snd (TransactionReceipt client h (n + i)) = NotFound"
    and "snd (TransactionReceipt client h (n + K)) = Found rp"
  shows "\<exists>tr' now'. recheck client h 0 b n now tr = Some (tr', now', Inr rp)
           \<and> waits tr' = waits tr + K
           \<and> length (filter is_receipt_poll tr') = length (filter is_receipt_poll tr) + Suc K"
  using assms
proof (induction K arbitrary: n now tr)
  case 0
  obtain d where "TransactionReceipt client h n = (d, Found rp)"
    using 0(2) by (cases "TransactionReceipt client h n") simp
  then show ?case
    by (simp add: recheck_found waits_append waits_def)
next
  case (Suc K)
  obtain d where d: "TransactionReceipt client h n = (d, NotFound)"
    using Suc.prems(1) [rule_format, of 0] by (cases "TransactionReceipt client h n") simp
  have a: "\<forall>i<K. snd (TransactionReceipt client h (Suc n + i)) = NotFound"
    using Suc.prems(1) by (metis Suc_less_eq add_Suc_shift)
  have b: "snd (TransactionReceipt client h (Suc n + K)) = Found rp"
    using Suc.prems(2) by simp
  let ?tr = "tr @ [CallTransactionReceipt h, Log (LogTxNotFound h), Log (LogRecheck h),
                      Sleep 5000000000]"
  obtain tr' now' where r: "recheck client h 0 b (Suc n) (now + d + 5000000000) ?tr
       = Some (tr', now', Inr rp)" "waits tr' = waits ?tr + K"
     "length (filter is_receipt_poll tr') = length (filter is_receipt_poll ?tr) + Suc K"
    using Suc.IH [OF a b] by blast
  show ?case
    using r by (simp add: recheck_not_found_unbounded [OF d] waits_append waits_def)
qed

lemma getTxReceipt_unbounded:
  assumes "\<forall>i<K. snd (TransactionReceipt client h i) = NotFound"
    and "snd (TransactionReceipt client h K) = Found rp"
  shows "\<exists>tr now'. getTxReceipt client h 0 now = Some (tr, now', Inr rp)
           \<and> waits tr = K \<and> length (filter is_receipt_poll tr) = Suc K"
  using recheck_unbounded [of K client h 0 rp now now "[]"] assms
  by (simp add: getTxReceipt_def waits_def)

lemma getTxReceipt_positive_timeout_first_miss:
  assumes "TransactionReceipt client h 0 = (d, NotFound)" and "0 < timeout" and "d < timeout"
  shows "getTxReceipt client h timeout now
           = Some ([CallTransactionReceipt h, Log (LogTxNotFound h)], now + d,
                   Inl GetReceiptTimeout)"
  using assms by (simp add: getTxReceipt_def recheck_not_found_early)

text \<open>
  Claim C2 (polling until the timeout): with a positive timeout the test is the wrong way
  round. The branch commented "timeout" is taken when the deadline is still ahead
  (\<open>beginTime + timeout\<close> is after now), so the first "not found" ends the wait at once; and
  once the deadline has passed the test is false for good. Here the timeout is 10 seconds,
  the first lookup misses at time 0 and the second would find the receipt: the code returns
  the timeout error after no wait at all. With timeout 0 the same node gives the receipt
  after one wait.
\<close>

theorem getTxReceipt_times_out_before_the_deadline:
  "getTxReceipt demo_node h 10000000000 0
     = Some ([CallTransactionReceipt h, Log (LogTxNotFound h)], 0, Inl GetReceiptTimeout)
   \<and> snd (TransactionReceipt demo_node h 1) = Found \<lparr>Status = 1\<rparr>
   \<and> (\<exists>tr now'. getTxReceipt demo_node h 0 0 = Some (tr, now', Inr \<lparr>Status = 1\<rparr>)
          \<and> waits tr = 1)"
proof -
  have m: "TransactionReceipt demo_node h 0 = (0, NotFound)"
    and f: "snd (TransactionReceipt demo_node h 1) = Found \<lparr>Status = 1\<rparr>"
    by (simp_all add: demo_node_def)
  have "\<forall>i<1. snd (TransactionReceipt demo_node h i) = NotFound"
    using m by simp
  then have "\<exists>tr now'. getTxReceipt demo_node h 0 0 = Some (tr, now', Inr \<lparr>Status = 1\<rparr>)
          \<and> waits tr = 1"
    using getTxReceipt_unbounded [of 1 demo_node h "\<lparr>Status = 1\<rparr>" 0] f by auto
  then show ?thesis
    using getTxReceipt_positive_timeout_first_miss [OF m, of 10000000000 0] f by simp
qed



section \<open>Properties of the decimal conversion\<close>

lemma not_digit:
  "\<not> is_digit CHR ''.''" "\<not> is_digit CHR ''-''" "\<not> is_digit CHR ''+''"
  "\<not> is_digit CHR ''e''" "\<not> is_digit CHR ''E''"
  by (simp_all add: is_digit_def)

lemma digit_not_special:
  assumes "is_digit c"
  shows "c \<noteq> CHR ''.''" "c \<noteq> CHR ''-''" "c \<noteq> CHR ''+''" "\<not> is_exp_mark c"
  using assms not_digit by (auto simp: is_exp_mark_def)

lemma foldl_positional:
  fixes f :: "nat \<Rightarrow> 'a \<Rightarrow> nat"
  assumes "\<And>acc c. f acc c = 10 * acc + g c"
  shows "foldl f a ds = a * 10 ^ length ds + foldl f 0 ds"
proof (induction ds arbitrary: a)
  case Nil
  show ?case by simp
next
  case (Cons d ds)
  have e1: "f a d = 10 * a + g d" and e0: "f 0 d = g d"
    by (simp_all add: assms)
  have "foldl f a (d # ds) = foldl f (f a d) ds" by simp
  also have "\<dots> = f a d * 10 ^ length ds + foldl f 0 ds"
    by (rule Cons.IH)
  also have "\<dots> = a * 10 ^ length (d # ds) + (f 0 d * 10 ^ length ds + foldl f 0 ds)"
    unfolding e1 e0 by (simp add: algebra_simps)
  also have "\<dots> = a * 10 ^ length (d # ds) + foldl f (f 0 d) ds"
    by (simp only: Cons.IH [of "f 0 d"])
  also have "\<dots> = a * 10 ^ length (d # ds) + foldl f 0 (d # ds)" by simp
  finally show ?case .
qed

lemma digits_val_append:
  "digits_val (ip @ fp) = digits_val ip * 10 ^ length fp + digits_val fp"
  unfolding digits_val_def foldl_append
  by (rule foldl_positional) simp

lemma parse_int_digits:
  assumes "list_all is_digit ds" and "ds \<noteq> []"
  shows "parse_int ((if neg then ''-'' else []) @ ds)
           = Some (if neg then - int (digits_val ds) else int (digits_val ds))"
proof (cases neg)
  case True
  then show ?thesis using assms by (simp add: parse_int_def)
next
  case False
  obtain d ds' where ds: "ds = d # ds'" using assms(2) by (cases ds) auto
  then have "is_digit d" using assms(1) by simp
  then have "d \<noteq> CHR ''-''" "d \<noteq> CHR ''+''" by (simp_all add: digit_not_special)
  then show ?thesis using False assms ds by (simp add: parse_int_def)
qed

lemma NewFromString_decimal_string:
  assumes ip: "list_all is_digit ip" and fp: "list_all is_digit fp"
    and ne: "ip @ fp \<noteq> []" and len: "length fp \<le> 9"
  shows "NewFromString (decimal_string neg ip fp)
           = Some (Decimal (if neg then - int (digits_val (ip @ fp)) else int (digits_val (ip @ fp)))
                     (- int (length fp)))"
proof -
  let ?sg = "(if neg then ''-'' else [])"
  let ?s = "decimal_string neg ip fp"
  have sg_nodot: "\<forall>c\<in>set (?sg @ ip). c \<noteq> CHR ''.''"
    using ip not_digit by (auto simp: list_all_iff)
  have noexp: "\<forall>c\<in>set ?s. \<not> is_exp_mark c"
    using ip fp not_digit by (auto simp: decimal_string_def list_all_iff is_exp_mark_def)
  have mant: "takeWhile (\<lambda>c. \<not> is_exp_mark c) ?s = ?s"
    and rest: "dropWhile (\<lambda>c. \<not> is_exp_mark c) ?s = []"
    using noexp by (simp_all add: takeWhile_eq_all_conv dropWhile_eq_Nil_conv)
  have s_eq: "?s = (?sg @ ip) @ (if fp = [] then [] else CHR ''.'' # fp)"
    by (simp add: decimal_string_def)
  have tw: "takeWhile (\<lambda>c. c \<noteq> CHR ''.'') ?s = ?sg @ ip"
    unfolding s_eq using sg_nodot by (subst takeWhile_append2) auto
  have dw: "dropWhile (\<lambda>c. c \<noteq> CHR ''.'') ?s = (if fp = [] then [] else CHR ''.'' # fp)"
    unfolding s_eq using sg_nodot by (subst dropWhile_append2) auto
  have fp': "(if dropWhile (\<lambda>c. c \<noteq> CHR ''.'') ?s = [] then []
              else tl (dropWhile (\<lambda>c. c \<noteq> CHR ''.'') ?s)) = fp"
    by (simp add: dw)
  have nodot: "CHR ''.'' \<notin> set fp"
    using fp not_digit by (auto simp: list_all_iff)
  have digs: "list_all is_digit (ip @ fp)" using ip fp by simp
  have pi: "parse_int ((?sg @ ip) @ fp)
           = Some (if neg then - int (digits_val (ip @ fp)) else int (digits_val (ip @ fp)))"
    using parse_int_digits [OF digs ne, of neg] by simp
  have rng: "\<not> (0 - int (length fp) < - 2147483648 \<or> 2147483648 \<le> 0 - int (length fp))"
    using len by simp
  show ?thesis
    unfolding NewFromString_def mant rest Let_def tw fp'
    using nodot rng by (simp only: pi) simp
qed

lemma sdiv_mult_exact:
  fixes a m :: int
  assumes "0 < m"
  shows "(a * m) sdiv m = a"
proof -
  have "\<bar>a * m\<bar> div \<bar>m\<bar> = \<bar>a\<bar>"
    using assms by (simp add: abs_mult)
  moreover have "sgn (a * m) * sgn m = sgn a"
    using assms by (simp add: sgn_mult)
  ultimately show ?thesis
    by (simp add: signed_divide_int_def mult_sgn_abs)
qed

lemma gweiToWei_Decimal:
  assumes "NewFromString s = Some (Decimal c (- int k))" and "k \<le> 9"
  shows "gweiToWei s = c * 10 ^ (9 - k)"
proof (cases "k = 0")
  case True
  then show ?thesis using assms by (simp add: gweiToWei_def Mul_def BigInt_def)
next
  case False
  have p: "(10::int) ^ (9 - k) * 10 ^ k = 1000000000"
    using assms(2) by (simp add: power_add [symmetric])
  have "c * 1000000000 = (c * 10 ^ (9 - k)) * 10 ^ k"
    by (simp only: p [symmetric] mult.assoc)
  then have "(c * 1000000000) sdiv 10 ^ k = ((c * 10 ^ (9 - k)) * 10 ^ k) sdiv 10 ^ k"
    by (simp only:)
  also have "\<dots> = c * 10 ^ (9 - k)"
    by (rule sdiv_mult_exact) simp
  finally have "(c * 1000000000) sdiv 10 ^ k = c * 10 ^ (9 - k)" .
  then show ?thesis using assms False by (simp add: gweiToWei_def Mul_def BigInt_def)
qed

lemma gweiToWei_exact:
  assumes ip: "list_all is_digit ip" and fp: "list_all is_digit fp"
    and ne: "ip @ fp \<noteq> []" and len: "length fp \<le> 9"
  shows "real_of_int (gweiToWei (decimal_string neg ip fp)) = decimal_value neg ip fp * 10 ^ 9"
proof -
  let ?k = "length fp"
  let ?c = "(if neg then - int (digits_val (ip @ fp)) else int (digits_val (ip @ fp)))"
  have g: "gweiToWei (decimal_string neg ip fp) = ?c * 10 ^ (9 - ?k)"
    using NewFromString_decimal_string [OF ip fp ne len, of neg] len
    by (rule gweiToWei_Decimal)
  have p: "(10::real) ^ 9 = 10 ^ (9 - ?k) * 10 ^ ?k"
    using len by (simp add: power_add [symmetric])
  have "real_of_int (?c * 10 ^ (9 - ?k))
          = (if neg then - 1 else 1) * (real (digits_val ip) * 10 ^ ?k + real (digits_val fp))
              * 10 ^ (9 - ?k)"
    by (simp add: digits_val_append)
  also have "\<dots> = decimal_value neg ip fp * 10 ^ 9"
    unfolding decimal_value_def p by (simp add: field_simps)
  finally show ?thesis using g by simp
qed



section \<open>Properties of the steps of Transact\<close>

lemma and_then_Ok_iff:
  "and_then m f = (tr, Ok y) \<longleftrightarrow>
     (\<exists>tr1 x tr2. m = (tr1, Ok x) \<and> f x = (tr2, Ok y) \<and> tr = tr1 @ tr2)"
proof (cases m)
  case (Pair t r)
  then show ?thesis
    by (cases r) (auto split: prod.splits)
qed

lemma Transact_buildTx_Ok:
  assumes "Transact_buildTx g client lib key toAddress amount gp data = (tr, Ok b)"
  shows "\<exists>tr1 n tr2 gl tr3 pr tr4.
           Transact_nonce g client (PubkeyToAddress lib key) = (tr1, Ok n)
         \<and> Transact_gasLimit g client toAddress data = (tr2, Ok gl)
         \<and> Transact_gasPrice client gp = (tr3, Ok pr)
         \<and> tr = tr1 @ tr2 @ tr3 @ tr4
         \<and> b_fromAddress b = PubkeyToAddress lib key \<and> b_nonce b = n
         \<and> b_gasLimit b = gl \<and> b_gasPrice b = pr
         \<and> (if globalOptTxType g = txTypeEip1559 g
              then \<exists>tip cap. Transact_fees g client = (tr4, Ok (tip, cap))
                     \<and> b_tx b = DynamicFeeTx n toAddress amount gl tip cap data
              else tr4 = [] \<and> b_tx b = LegacyTx n toAddress amount gl pr data)"
proof -
  from assms obtain tr1 n tra where 1:
    "Transact_nonce g client (PubkeyToAddress lib key) = (tr1, Ok n)" "tr = tr1 @ tra"
    and r1: "and_then (Transact_gasLimit g client toAddress data) (\<lambda>gasLimit.
         and_then (Transact_gasPrice client gp) (\<lambda>gasPrice.
           if globalOptTxType g = txTypeEip1559 g
           then and_then (Transact_fees g client) (\<lambda>(maxPriorityFeePerGas, maxFeePerGas).
                  ([], Ok \<lparr>b_fromAddress = PubkeyToAddress lib key, b_nonce = n, b_gasLimit = gasLimit,
                           b_gasPrice = gasPrice,
                           b_tx = DynamicFeeTx n toAddress amount gasLimit
                                  maxPriorityFeePerGas maxFeePerGas data\<rparr>))
           else ([], Ok \<lparr>b_fromAddress = PubkeyToAddress lib key, b_nonce = n, b_gasLimit = gasLimit,
                          b_gasPrice = gasPrice,
                          b_tx = LegacyTx n toAddress amount gasLimit gasPrice data\<rparr>))) = (tra, Ok b)"
    unfolding Transact_buildTx_def Let_def and_then_Ok_iff by blast
  from r1 obtain tr2 gl trb where 2:
    "Transact_gasLimit g client toAddress data = (tr2, Ok gl)" "tra = tr2 @ trb"
    and r2: "and_then (Transact_gasPrice client gp) (\<lambda>gasPrice.
           if globalOptTxType g = txTypeEip1559 g
           then and_then (Transact_fees g client) (\<lambda>(maxPriorityFeePerGas, maxFeePerGas).
                  ([], Ok \<lparr>b_fromAddress = PubkeyToAddress lib key, b_nonce = n, b_gasLimit = gl,
                           b_gasPrice = gasPrice,
                           b_tx = DynamicFeeTx n toAddress amount gl
                                  maxPriorityFeePerGas maxFeePerGas data\<rparr>))
           else ([], Ok \<lparr>b_fromAddress = PubkeyToAddress lib key, b_nonce = n, b_gasLimit = gl,
                          b_gasPrice = gasPrice,
                          b_tx = LegacyTx n toAddress amount gl gasPrice data\<rparr>)) = (trb, Ok b)"
    unfolding and_then_Ok_iff by blast
  from r2 obtain tr3 pr tr4 where 3:
    "Transact_gasPrice client gp = (tr3, Ok pr)" "trb = tr3 @ tr4"
    and r3: "(if globalOptTxType g = txTypeEip1559 g
           then and_then (Transact_fees g client) (\<lambda>(maxPriorityFeePerGas, maxFeePerGas).
                  ([], Ok \<lparr>b_fromAddress = PubkeyToAddress lib key, b_nonce = n, b_gasLimit = gl,
                           b_gasPrice = pr,
                           b_tx = DynamicFeeTx n toAddress amount gl
                                  maxPriorityFeePerGas maxFeePerGas data\<rparr>))
           else ([], Ok \<lparr>b_fromAddress = PubkeyToAddress lib key, b_nonce = n, b_gasLimit = gl,
                          b_gasPrice = pr,
                          b_tx = LegacyTx n toAddress amount gl pr data\<rparr>)) = (tr4, Ok b)"
    unfolding and_then_Ok_iff by blast
  show ?thesis
  proof (cases "globalOptTxType g = txTypeEip1559 g")
    case True
    with r3 obtain tip cap where
      "Transact_fees g client = (tr4, Ok (tip, cap))"
      "b = \<lparr>b_fromAddress = PubkeyToAddress lib key, b_nonce = n, b_gasLimit = gl,
            b_gasPrice = pr, b_tx = DynamicFeeTx n toAddress amount gl tip cap data\<rparr>"
      by (auto simp: and_then_Ok_iff)
    with True 1 2 3 show ?thesis by auto
  next
    case False
    with r3 have "tr4 = []"
      "b = \<lparr>b_fromAddress = PubkeyToAddress lib key, b_nonce = n, b_gasLimit = gl,
            b_gasPrice = pr, b_tx = LegacyTx n toAddress amount gl pr data\<rparr>"
      by auto
    with False 1 2 3 show ?thesis by auto
  qed
qed

lemma Transact_gasLimit_override:
  assumes "globalOptGasLimit g \<noteq> 0"
  shows "Transact_gasLimit g client toAddress data = ([], Ok (globalOptGasLimit g))"
  using assms by (simp add: Transact_gasLimit_def)

lemma Transact_gasLimit_creation:
  assumes "globalOptGasLimit g = 0"
  shows "Transact_gasLimit g client None data = ([], Ok 7000000)"
  using assms by (simp add: Transact_gasLimit_def)

lemma Transact_gasLimit_destination:
  assumes "globalOptGasLimit g = 0" and "CodeAt client a = Inr code"
  shows "Transact_gasLimit g client (Some a) data =
           ([CallCodeAt a],
            Ok (if code = [] \<and> data = [] then gasUsedByTransferEth g else 900000))"
  using assms by (simp add: Transact_gasLimit_def isContractAddress_def)

lemma Transact_gasLimit_probe_fails:
  assumes "globalOptGasLimit g = 0" and "CodeAt client a = Inl err"
  shows "Transact_gasLimit g client (Some a) data =
           ([CallCodeAt a], Err (IsContractAddressFail err))"
  using assms by (simp add: Transact_gasLimit_def isContractAddress_def)

text \<open>
  Claim C6 (choice of the gas limit): an override other than 0 is the gas limit, and the node
  is not asked. With no override: 7,000,000 without a destination; with a destination whose
  code the node returns, the transfer default when code and payload are both empty, and
  900,000 when either is not; "is a contract" is "the code at the latest block is not empty".
  The gas limit chosen is the \<open>Gas\<close> of the transaction that is built.
\<close>

theorem Transact_gasLimit_selection:
  "(globalOptGasLimit g \<noteq> 0 \<longrightarrow>
      Transact_gasLimit g client toAddress data = ([], Ok (globalOptGasLimit g)))
   \<and> (globalOptGasLimit g = 0 \<longrightarrow>
        Transact_gasLimit g client None data = ([], Ok 7000000)
      \<and> (\<forall>a code. CodeAt client a = Inr code \<longrightarrow>
            isContractAddress client a = ([CallCodeAt a], Inr (code \<noteq> []))
          \<and> Transact_gasLimit g client (Some a) data =
              ([CallCodeAt a],
               Ok (if code = [] \<and> data = [] then gasUsedByTransferEth g else 900000))))
   \<and> (\<forall>tr b. Transact_buildTx g client lib key toAddress amount gp data = (tr, Ok b) \<longrightarrow>
         (\<exists>tr'. Transact_gasLimit g client toAddress data = (tr', Ok (Gas (b_tx b)))))"
proof (intro conjI impI allI)
  show "Transact_gasLimit g client toAddress data = ([], Ok (globalOptGasLimit g))"
    if "globalOptGasLimit g \<noteq> 0"
    using that by (rule Transact_gasLimit_override)
  show "Transact_gasLimit g client None data = ([], Ok 7000000)" if "globalOptGasLimit g = 0"
    using that by (rule Transact_gasLimit_creation)
  show "isContractAddress client a = ([CallCodeAt a], Inr (code \<noteq> []))"
    if "CodeAt client a = Inr code" for a code
    using that by (simp add: isContractAddress_def)
  show "Transact_gasLimit g client (Some a) data =
              ([CallCodeAt a],
               Ok (if code = [] \<and> data = [] then gasUsedByTransferEth g else 900000))"
    if "globalOptGasLimit g = 0" "CodeAt client a = Inr code" for a code
    using that by (rule Transact_gasLimit_destination)
  show "\<exists>tr'. Transact_gasLimit g client toAddress data = (tr', Ok (Gas (b_tx b)))"
    if "Transact_buildTx g client lib key toAddress amount gp data = (tr, Ok b)" for tr b
    using Transact_buildTx_Ok [OF that] by (auto split: if_splits)
qed


lemma reward_mean_rows:
  assumes "rows = [s0, m0, f0] # [s1, m1, f1] # [s2, m2, f2] # rest"
  shows "reward_mean rows 0 = Inr ((s0 + s1 + s2) div 3)"
    and "reward_mean rows 1 = Inr ((m0 + m1 + m2) div 3)"
    and "reward_mean rows 2 = Inr ((f0 + f1 + f2) div 3)"
  using assms by (simp_all add: reward_mean_def index2_def)

lemma Transact_feeEstimate_value:
  assumes "FeeHistory client 4 [5, 50, 95] = Inr fh"
    and "Reward fh = [s0, m0, f0] # [s1, m1, f1] # [s2, m2, f2] # rest"
    and "BlockByNumber client = Inr blk" and "BaseFee blk = Some baseFee"
  shows "Transact_feeEstimate client =
           ([CallFeeHistory 4 [5, 50, 95], CallBlockByNumber],
            Ok ((m0 + m1 + m2) div 3, baseFee + (m0 + m1 + m2) div 3))"
  using assms(1,3,4) reward_mean_rows [OF assms(2)]
  by (simp add: Transact_feeEstimate_def Let_def)

lemma Transact_fees_no_override:
  assumes "globalOptMaxPriorityFeePerGas g = []" and "globalOptMaxFeePerGas g = []"
    and "Transact_feeEstimate client = (tr, Ok (tip, cap))"
  shows "Transact_fees g client = (tr, Ok (tip, cap))"
  using assms by (simp add: Transact_fees_def)

lemma Transact_fees_both_overrides:
  assumes "globalOptMaxPriorityFeePerGas g \<noteq> []" and "globalOptMaxFeePerGas g \<noteq> []"
  shows "Transact_fees g client =
           ([], Ok (gweiToWei (globalOptMaxPriorityFeePerGas g),
                    gweiToWei (globalOptMaxFeePerGas g)))"
  using assms by (simp add: Transact_fees_def)

lemma Transact_buildTx_fees:
  assumes "Transact_buildTx g client lib key toAddress amount gp data = (tr, Ok b)"
    and "globalOptTxType g = txTypeEip1559 g"
  shows "\<exists>tr4. Transact_fees g client = (tr4, Ok (GasTipCap (b_tx b), GasFeeCap (b_tx b)))"
  using Transact_buildTx_Ok [OF assms(1)] assms(2) by auto

text \<open>
  Claim C1 (the default fees), as the code computes them: with neither override, the priority
  fee is the average (\<open>div 3\<close>) of the 50th-percentile rewards of the first three rows of the
  4-block fee history, which are its three oldest blocks; the reward of the most recent block
  is not read. The max fee is the base fee of the latest block plus that priority fee, and
  these two values are the fee fields of the dynamic-fee transaction that is built.
\<close>

theorem Transact_fees_estimate:
  assumes "globalOptMaxPriorityFeePerGas g = []" and "globalOptMaxFeePerGas g = []"
    and "FeeHistory client 4 [5, 50, 95] = Inr fh"
    and "Reward fh = [[s0, m0, f0], [s1, m1, f1], [s2, m2, f2], [s3, m3, f3]]"
    and "BlockByNumber client = Inr blk" and "BaseFee blk = Some baseFee"
  shows "Transact_fees g client =
           ([CallFeeHistory 4 [5, 50, 95], CallBlockByNumber],
            Ok ((m0 + m1 + m2) div 3, baseFee + (m0 + m1 + m2) div 3))
       \<and> (\<forall>tr b. globalOptTxType g = txTypeEip1559 g
             \<and> Transact_buildTx g client lib key toAddress amount gp data = (tr, Ok b)
           \<longrightarrow> GasTipCap (b_tx b) = (m0 + m1 + m2) div 3
             \<and> GasFeeCap (b_tx b) = baseFee + (m0 + m1 + m2) div 3)"
proof -
  have fees: "Transact_fees g client =
           ([CallFeeHistory 4 [5, 50, 95], CallBlockByNumber],
            Ok ((m0 + m1 + m2) div 3, baseFee + (m0 + m1 + m2) div 3))"
    using assms(1,2) Transact_feeEstimate_value [OF assms(3,4,5,6)]
    by (rule Transact_fees_no_override)
  moreover have "GasTipCap (b_tx b) = (m0 + m1 + m2) div 3
             \<and> GasFeeCap (b_tx b) = baseFee + (m0 + m1 + m2) div 3"
    if "globalOptTxType g = txTypeEip1559 g"
      "Transact_buildTx g client lib key toAddress amount gp data = (tr, Ok b)" for tr b
    using Transact_buildTx_fees [OF that(2,1)] fees by simp
  ultimately show ?thesis by blast
qed



lemma and_then_trace_subset:
  "set (fst (and_then m f)) \<subseteq> set (fst m) \<union> (\<Union>x. set (fst (f x)))"
proof (cases m)
  case (Pair t r)
  show ?thesis
  proof (cases r)
    case (Ok x)
    have "fst (and_then (t, Ok x) f) = t @ fst (f x)"
      by (simp split: prod.splits)
    then show ?thesis using Pair Ok by auto
  qed (simp_all add: Pair)
qed

lemma Transact_nonce_trace:
  "set (fst (Transact_nonce g client a)) \<subseteq> {CallPendingNonceAt a}"
  by (simp add: Transact_nonce_def)

lemma Transact_gasLimit_trace:
  "set (fst (Transact_gasLimit g client toAddress data)) \<subseteq> range CallCodeAt"
  by (auto simp: Transact_gasLimit_def isContractAddress_def Let_def
      split: option.splits sum.splits)

lemma Transact_gasPrice_trace:
  "set (fst (Transact_gasPrice client gp)) \<subseteq> {CallGetGasPrice}"
  by (auto simp: Transact_gasPrice_def split: option.splits)

lemma Transact_feeEstimate_trace:
  "set (fst (Transact_feeEstimate client)) \<subseteq> {CallFeeHistory 4 [5, 50, 95], CallBlockByNumber}"
  by (auto simp: Transact_feeEstimate_def Let_def split: sum.splits option.splits)

lemma Transact_fees_trace:
  "set (fst (Transact_fees g client)) \<subseteq> {CallFeeHistory 4 [5, 50, 95], CallBlockByNumber}"
proof -
  have "set (fst (Transact_fees g client))
          \<subseteq> set (fst (if globalOptMaxPriorityFeePerGas g = [] \<or> globalOptMaxFeePerGas g = []
                        then Transact_feeEstimate client else ([], Ok (0, 0)))) \<union> {}"
    unfolding Transact_fees_def
    by (rule subset_trans [OF and_then_trace_subset]) (auto simp: Let_def)
  then show ?thesis
    using Transact_feeEstimate_trace [of client] by (auto split: if_splits)
qed

lemma Transact_buildTx_trace:
  "set (fst (Transact_buildTx g client lib key toAddress amount gp data))
     \<subseteq> {CallPendingNonceAt (PubkeyToAddress lib key), CallGetGasPrice}
        \<union> range CallCodeAt
        \<union> (if globalOptTxType g = txTypeEip1559 g then set (fst (Transact_fees g client)) else {})"
  (is "?lhs \<subseteq> ?rhs")
proof
  fix e assume "e \<in> ?lhs"
  then have "e \<in> set (fst (Transact_nonce g client (PubkeyToAddress lib key)))
        \<or> e \<in> set (fst (Transact_gasLimit g client toAddress data))
        \<or> e \<in> set (fst (Transact_gasPrice client gp))
        \<or> (globalOptTxType g = txTypeEip1559 g \<and> e \<in> set (fst (Transact_fees g client)))"
    unfolding Transact_buildTx_def Let_def
    apply -
    apply (drule subsetD [OF and_then_trace_subset])
    apply (erule UnE, simp)
    apply (erule UN_E)
    apply (drule subsetD [OF and_then_trace_subset])
    apply (erule UnE, simp)
    apply (erule UN_E)
    apply (drule subsetD [OF and_then_trace_subset])
    apply (erule UnE, simp)
    apply (erule UN_E)
    apply (simp split: if_splits)
    apply (drule subsetD [OF and_then_trace_subset])
    apply (auto split: prod.splits)
    done
  then show "e \<in> ?rhs"
    using Transact_nonce_trace [of g client "PubkeyToAddress lib key"]
      Transact_gasLimit_trace [of g client toAddress data]
      Transact_gasPrice_trace [of client gp]
    by auto
qed

lemma Transact_sign_trace:
  "set (fst (Transact_sign g client lib key toAddress amount data b))
     \<subseteq> {CallNetworkID} \<union> range Log \<union> range CallEstimateGas"
  by (auto simp: Transact_sign_def Let_def split: sum.splits)

lemma recheck_trace:
  assumes "recheck client h timeout b n now tr = Some y"
  shows "set (fst y) \<subseteq> set tr \<union> {CallTransactionReceipt h} \<union> range Log \<union> range Sleep"
  using assms
proof (induction rule: recheck.raw_induct [rotated 1, consumes 1])
  case (1 rec client h timeout b n now tr y)
  show ?case
  proof (cases "TransactionReceipt client h n")
    case (Pair d res)
    show ?thesis
    proof (cases res)
      case (Found rp)
      with 1(2) Pair show ?thesis by (auto simp: Let_def)
    next
      case (LookupFailed err)
      with 1(2) Pair show ?thesis by (auto simp: Let_def)
    next
      case NotFound
      show ?thesis
      proof (cases "0 < timeout \<and> now + d < b + timeout")
        case True
        with 1(2) Pair NotFound show ?thesis by (auto simp: Let_def)
      next
        case False
        with 1(2) Pair NotFound
        have "rec client h timeout b (Suc n) (now + d + 5000000000)
                (tr @ [CallTransactionReceipt h, Log (LogTxNotFound h), Log (LogRecheck h),
                       Sleep 5000000000]) = Some y"
          by (auto simp: Let_def)
        from 1(1) [OF this] show ?thesis by auto
      qed
    qed
  qed
qed

lemma getTxReceipt_trace:
  assumes "getTxReceipt client h timeout now = Some (tr, now', r)"
  shows "set tr \<subseteq> {CallTransactionReceipt h} \<union> range Log \<union> range Sleep"
  using recheck_trace [of client h timeout now 0 now "[]" "(tr, now', r)"] assms
  by (simp add: getTxReceipt_def)


lemma SendRawTransaction_ok:
  assumes "MarshalBinary lib stx = Inr raw"
    and "eth_sendRawTransaction client (hexutil_Encode raw) = Inr res"
  shows "SendRawTransaction client lib stx
           = ([CallSendRawTransaction (hexutil_Encode raw)], Inr (BytesToHash res))"
  using assms by (simp add: SendRawTransaction_def GenRawTx_def)

lemma SendRawTransaction_trace:
  "set (fst (SendRawTransaction client lib stx)) \<subseteq> range CallSendRawTransaction"
  by (auto simp: SendRawTransaction_def split: sum.splits)

lemma explorer_log_trace: "set (explorer_log g h) \<subseteq> range Log"
  by (auto simp: explorer_log_def split: option.splits)

lemma Transact_confirm_dry_run:
  assumes "globalOptDryRun g"
  shows "Transact_confirm g client lib now toAddress b stx
           = Some ([], Ok (Hash_String (TxHash lib stx)))"
  using assms by (simp add: Transact_confirm_def)

lemma Transact_confirm_send_fails:
  assumes "\<not> globalOptDryRun g" and "SendRawTransaction client lib stx = (trs, Inl err)"
  shows "Transact_confirm g client lib now toAddress b stx
           = Some (trs, Err (SendRawTransactionFail err))"
  using assms by (simp add: Transact_confirm_def)

lemma Transact_confirm_not_checked:
  assumes "\<not> globalOptDryRun g" and "SendRawTransaction client lib stx = (trs, Inr h)"
    and "transferNotCheck g"
  shows "Transact_confirm g client lib now toAddress b stx
           = Some (trs @ (if TxHash lib stx \<noteq> h then [Log (WarnTxNotSame (TxHash lib stx) h)]
                          else []),
                   Ok (Hash_String h))"
  using assms by (simp add: Transact_confirm_def Let_def)

lemma Transact_confirm_checked:
  assumes "\<not> globalOptDryRun g" and "SendRawTransaction client lib stx = (trs, Inr h)"
    and "\<not> transferNotCheck g"
    and "Transact_confirm g client lib now toAddress b stx = Some (tr, r)"
  shows "\<exists>trp now' rr trl.
           getTxReceipt client h 0 now = Some (trp, now', rr)
         \<and> tr = trs @ (if TxHash lib stx \<noteq> h then [Log (WarnTxNotSame (TxHash lib stx) h)]
                          else []) @ trp @ trl
         \<and> set trl \<subseteq> range Log
         \<and> (case rr of
               Inl err \<Rightarrow> r = Err (GetTxReceiptFail err)
             | Inr rp \<Rightarrow> r = (if Status rp \<noteq> ReceiptStatusSuccessful
                               then Err (TxStatusFailed h) else Ok (Hash_String h)))"
proof (cases "getTxReceipt client h 0 now")
  case None
  with assms show ?thesis by (simp add: Transact_confirm_def Let_def)
next
  case (Some y)
  obtain trp now' rr where y: "y = (trp, now', rr)" by (cases y) auto
  show ?thesis
  proof (cases rr)
    case (Inl err)
    with assms Some y show ?thesis
      by (auto simp: Transact_confirm_def Let_def)
  next
    case (Inr rp)
    with assms Some y explorer_log_trace [of g h] show ?thesis
      by (auto simp: Transact_confirm_def Let_def split: if_splits)
  qed
qed

lemma Transact_confirm_receipt:
  assumes "\<not> globalOptDryRun g" and "SendRawTransaction client lib stx = (trs, Inr h)"
    and "\<not> transferNotCheck g"
    and "getTxReceipt client h 0 now = Some (trp, now', Inr rp)"
    and "Status rp = ReceiptStatusSuccessful"
  shows "\<exists>tr. Transact_confirm g client lib now toAddress b stx = Some (tr, Ok (Hash_String h))"
  using assms by (simp add: Transact_confirm_def Let_def)

lemma Transact_confirm_trace:
  assumes "Transact_confirm g client lib now toAddress b stx = Some (tr, r)"
  shows "set tr \<subseteq> (if globalOptDryRun g then {}
                    else range CallSendRawTransaction \<union> range Log \<union> range Sleep
                         \<union> range CallTransactionReceipt)"
proof (cases "globalOptDryRun g")
  case True
  with assms show ?thesis by (simp add: Transact_confirm_dry_run)
next
  case False
  obtain trs rs where s: "SendRawTransaction client lib stx = (trs, rs)"
    by (cases "SendRawTransaction client lib stx") auto
  have trs: "set trs \<subseteq> range CallSendRawTransaction"
    using SendRawTransaction_trace [of client lib stx] s by simp
  show ?thesis
  proof (cases rs)
    case (Inl err)
    with assms False s trs show ?thesis
      by (auto simp: Transact_confirm_send_fails)
  next
    case (Inr h)
    show ?thesis
    proof (cases "transferNotCheck g")
      case True
      with assms False s Inr trs show ?thesis
        by (auto simp: Transact_confirm_not_checked split: if_splits)
    next
      case nc: False
      from Transact_confirm_checked [OF False s [unfolded Inr] nc assms]
      obtain trp now' rr trl where
        g: "getTxReceipt client h 0 now = Some (trp, now', rr)"
        and t: "tr = trs @ (if TxHash lib stx \<noteq> h then [Log (WarnTxNotSame (TxHash lib stx) h)]
                          else []) @ trp @ trl"
        and l: "set trl \<subseteq> range Log"
        by blast
      from getTxReceipt_trace [OF g] t l trs False show ?thesis
        by (auto split: if_splits)
    qed
  qed
qed

lemma Transact_cases:
  assumes "Transact g client lib now key toAddress amount gp data = Some (tr, r)"
  obtains (build) tr1 r1 where
      "Transact_buildTx g client lib key toAddress amount gp data = (tr1, r1)"
      "\<forall>b. r1 \<noteq> Ok b" "tr = tr1" "\<forall>x. r \<noteq> Ok x" "\<forall>e. r = Err e \<longrightarrow> r1 = Err e"
    | (sign) tr1 b tr2 r2 where
      "Transact_buildTx g client lib key toAddress amount gp data = (tr1, Ok b)"
      "Transact_sign g client lib key toAddress amount data b = (tr2, r2)"
      "\<forall>s. r2 \<noteq> Ok s" "tr = tr1 @ tr2" "\<forall>x. r \<noteq> Ok x" "\<forall>e. r = Err e \<longrightarrow> r2 = Err e"
    | (confirm) tr1 b tr2 stx tr3 where
      "Transact_buildTx g client lib key toAddress amount gp data = (tr1, Ok b)"
      "Transact_sign g client lib key toAddress amount data b = (tr2, Ok stx)"
      "Transact_confirm g client lib now toAddress b stx = Some (tr3, r)"
      "tr = tr1 @ tr2 @ tr3"
proof -
  obtain tr1 r1 where b: "Transact_buildTx g client lib key toAddress amount gp data = (tr1, r1)"
    by (cases "Transact_buildTx g client lib key toAddress amount gp data") auto
  show thesis
  proof (cases r1)
    case (Ok b')
    obtain tr2 r2 where s: "Transact_sign g client lib key toAddress amount data b' = (tr2, r2)"
      by (cases "Transact_sign g client lib key toAddress amount data b'") auto
    show ?thesis
    proof (cases r2)
      case ok2: (Ok stx)
      from assms b Ok s ok2 obtain tr3 where
        "Transact_confirm g client lib now toAddress b' stx = Some (tr3, r)" "tr = tr1 @ tr2 @ tr3"
        by (auto simp: Transact_def split: option.splits)
      with b Ok s ok2 show ?thesis by (auto intro: confirm)
    next
      case (Err e)
      with assms b Ok s show ?thesis by (intro sign [of tr1 b' tr2 r2]) (auto simp: Transact_def)
    next
      case (Fatal e)
      with assms b Ok s show ?thesis by (intro sign [of tr1 b' tr2 r2]) (auto simp: Transact_def)
    next
      case (Panic p)
      with assms b Ok s show ?thesis by (intro sign [of tr1 b' tr2 r2]) (auto simp: Transact_def)
    qed
  next
    case (Err e)
    with assms b show ?thesis by (intro build [of tr1 r1]) (auto simp: Transact_def)
  next
    case (Fatal e)
    with assms b show ?thesis by (intro build [of tr1 r1]) (auto simp: Transact_def)
  next
    case (Panic p)
    with assms b show ?thesis by (intro build [of tr1 r1]) (auto simp: Transact_def)
  qed
qed

lemma Transact_trace:
  assumes "Transact g client lib now key toAddress amount gp data = Some (tr, r)"
  shows "set tr \<subseteq> set (fst (Transact_buildTx g client lib key toAddress amount gp data))
           \<union> {CallNetworkID} \<union> range Log \<union> range CallEstimateGas
           \<union> (if globalOptDryRun g then {}
               else range CallSendRawTransaction \<union> range Sleep \<union> range CallTransactionReceipt)"
  using assms
proof (cases rule: Transact_cases)
  case (build tr1 r1)
  then show ?thesis by auto
next
  case (sign tr1 b tr2 r2)
  then show ?thesis
    using Transact_sign_trace [of g client lib key toAddress amount data b] by auto
next
  case (confirm tr1 b tr2 stx tr3)
  then show ?thesis
    using Transact_sign_trace [of g client lib key toAddress amount data b]
      Transact_confirm_trace [OF confirm(3)]
    by (auto split: if_splits)
qed


lemma decimal_string_not_empty:
  assumes "ip @ fp \<noteq> []"
  shows "decimal_string neg ip fp \<noteq> []"
  using assms by (auto simp: decimal_string_def)

lemma Transact_no_fee_history:
  assumes "globalOptMaxPriorityFeePerGas g \<noteq> []" and "globalOptMaxFeePerGas g \<noteq> []"
    and "Transact g client lib now key toAddress amount gp data = Some (tr, r)"
  shows "\<forall>e\<in>set tr. \<not> is_fee_history e"
proof -
  have "fst (Transact_fees g client) = []"
    using assms(1,2) by (simp add: Transact_fees_both_overrides)
  then have "set (fst (Transact_buildTx g client lib key toAddress amount gp data))
     \<subseteq> {CallPendingNonceAt (PubkeyToAddress lib key), CallGetGasPrice} \<union> range CallCodeAt"
    using Transact_buildTx_trace [of g client lib key toAddress amount gp data]
    by (auto split: if_splits)
  then have "set tr \<subseteq> {CallPendingNonceAt (PubkeyToAddress lib key), CallGetGasPrice}
        \<union> range CallCodeAt \<union> {CallNetworkID} \<union> range Log \<union> range CallEstimateGas
        \<union> range CallSendRawTransaction \<union> range Sleep \<union> range CallTransactionReceipt"
    using Transact_trace [OF assms(3)]
    by (auto split: if_splits)
  then show ?thesis by auto
qed

text \<open>
  Claim C7 (both fee overrides): when both override strings are non-empty, the fee step calls
  nothing, no run of \<open>Transact\<close> contains a fee-history call, and the fee fields of the
  transaction are the two overrides converted; for an override written as a decimal numeral
  of gwei with at most nine digits after the point, the converted value is that number times
  \<open>10 ^ 9\<close>, exactly.
\<close>

theorem Transact_fee_overrides:
  assumes "globalOptMaxPriorityFeePerGas g \<noteq> []" and "globalOptMaxFeePerGas g \<noteq> []"
  shows "Transact_fees g client =
           ([], Ok (gweiToWei (globalOptMaxPriorityFeePerGas g),
                    gweiToWei (globalOptMaxFeePerGas g)))
       \<and> (\<forall>tr r. Transact g client lib now key toAddress amount gp data = Some (tr, r)
             \<longrightarrow> (\<forall>e\<in>set tr. \<not> is_fee_history e))
       \<and> (\<forall>tr b. globalOptTxType g = txTypeEip1559 g
             \<and> Transact_buildTx g client lib key toAddress amount gp data = (tr, Ok b)
           \<longrightarrow> GasTipCap (b_tx b) = gweiToWei (globalOptMaxPriorityFeePerGas g)
             \<and> GasFeeCap (b_tx b) = gweiToWei (globalOptMaxFeePerGas g))
       \<and> (\<forall>s neg ip fp.
             (s = globalOptMaxPriorityFeePerGas g \<or> s = globalOptMaxFeePerGas g)
             \<and> s = decimal_string neg ip fp \<and> list_all is_digit ip \<and> list_all is_digit fp
             \<and> ip @ fp \<noteq> [] \<and> length fp \<le> 9
           \<longrightarrow> real_of_int (gweiToWei s) = decimal_value neg ip fp * 10 ^ 9)"
proof (intro conjI allI impI)
  show fees: "Transact_fees g client =
           ([], Ok (gweiToWei (globalOptMaxPriorityFeePerGas g),
                    gweiToWei (globalOptMaxFeePerGas g)))"
    using assms by (rule Transact_fees_both_overrides)
  show "\<forall>e\<in>set tr. \<not> is_fee_history e"
    if "Transact g client lib now key toAddress amount gp data = Some (tr, r)" for tr r
    using assms that by (rule Transact_no_fee_history)
  show "GasTipCap (b_tx b) = gweiToWei (globalOptMaxPriorityFeePerGas g)"
    and "GasFeeCap (b_tx b) = gweiToWei (globalOptMaxFeePerGas g)"
    if "globalOptTxType g = txTypeEip1559 g
             \<and> Transact_buildTx g client lib key toAddress amount gp data = (tr, Ok b)" for tr b
    using Transact_buildTx_fees [of g client lib key toAddress amount gp data tr b] that fees
    by simp_all
  show "real_of_int (gweiToWei s) = decimal_value neg ip fp * 10 ^ 9"
    if "(s = globalOptMaxPriorityFeePerGas g \<or> s = globalOptMaxFeePerGas g)
             \<and> s = decimal_string neg ip fp \<and> list_all is_digit ip \<and> list_all is_digit fp
             \<and> ip @ fp \<noteq> [] \<and> length fp \<le> 9" for s neg ip fp
    using that gweiToWei_exact [of ip fp neg] by simp
qed

lemma Transact_total_dry_run:
  assumes "globalOptDryRun g"
  shows "\<exists>tr r. Transact g client lib now key toAddress amount gp data = Some (tr, r)"
  using assms
  by (auto simp: Transact_def Transact_confirm_dry_run split: prod.splits result.splits)

text \<open>
  Claim C9 (dry run): with the dry-run flag set, \<open>Transact\<close> always returns; its trace has no
  \<open>eth_sendRawTransaction\<close> and no receipt lookup; and when the transaction was built and
  signed, the trace ends with the signing step and the result is the hash of the signed
  transaction, computed locally.
\<close>

theorem Transact_dry_run:
  assumes "globalOptDryRun g"
  shows "\<exists>tr r. Transact g client lib now key toAddress amount gp data = Some (tr, r)
           \<and> (\<forall>e\<in>set tr. \<not> is_send e \<and> \<not> is_receipt_poll e)
           \<and> (\<forall>tr1 b tr2 stx.
                 Transact_buildTx g client lib key toAddress amount gp data = (tr1, Ok b)
                 \<and> Transact_sign g client lib key toAddress amount data b = (tr2, Ok stx)
               \<longrightarrow> tr = tr1 @ tr2 \<and> r = Ok (Hash_String (TxHash lib stx)))"
proof -
  obtain tr r where t: "Transact g client lib now key toAddress amount gp data = Some (tr, r)"
    using Transact_total_dry_run [OF assms] by blast
  have "set tr \<subseteq> {CallPendingNonceAt (PubkeyToAddress lib key), CallGetGasPrice}
        \<union> range CallCodeAt \<union> {CallFeeHistory 4 [5, 50, 95], CallBlockByNumber}
        \<union> {CallNetworkID} \<union> range Log \<union> range CallEstimateGas"
    using Transact_trace [OF t] assms
      Transact_buildTx_trace [of g client lib key toAddress amount gp data]
      Transact_fees_trace [of g client]
    by (auto split: if_splits)
  then have a: "\<forall>e\<in>set tr. \<not> is_send e \<and> \<not> is_receipt_poll e"
    by auto
  have b: "tr = tr1 @ tr2 \<and> r = Ok (Hash_String (TxHash lib stx))"
    if "Transact_buildTx g client lib key toAddress amount gp data = (tr1, Ok b)
                 \<and> Transact_sign g client lib key toAddress amount data b = (tr2, Ok stx)"
    for tr1 b tr2 stx
    using t that assms by (simp add: Transact_def Transact_confirm_dry_run)
  from t a b show ?thesis by blast
qed


lemma Transact_after_sign:
  assumes "Transact_buildTx g client lib key toAddress amount gp data = (tr1, Ok b)"
    and "Transact_sign g client lib key toAddress amount data b = (tr2, Ok stx)"
  shows "Transact g client lib now key toAddress amount gp data
           = (case Transact_confirm g client lib now toAddress b stx of
                None \<Rightarrow> None
              | Some (tr3, r) \<Rightarrow> Some (tr1 @ tr2 @ tr3, r))"
  using assms by (simp add: Transact_def)

text \<open>
  Claim C8 (the node's hash wins): when the broadcast succeeds and the hash the node returns
  differs from the hash of the signed transaction, \<open>Transact\<close> does not fail for that reason.
  With confirmation skipped it returns the node's hash at once; otherwise it returns the
  node's hash as soon as the node has a successful receipt for it. In every run the warning is
  logged, every receipt lookup asks for the node's hash, a successful result is the node's
  hash, and the only errors left are those of the receipt.
\<close>

theorem Transact_node_hash_is_used:
  assumes b: "Transact_buildTx g client lib key toAddress amount gp data = (tr1, Ok b)"
    and s: "Transact_sign g client lib key toAddress amount data b = (tr2, Ok stx)"
    and nd: "\<not> globalOptDryRun g"
    and m: "MarshalBinary lib stx = Inr raw"
    and e: "eth_sendRawTransaction client (hexutil_Encode raw) = Inr res"
    and ne: "BytesToHash res \<noteq> TxHash lib stx"
  shows "(transferNotCheck g \<longrightarrow>
            Transact g client lib now key toAddress amount gp data
              = Some (tr1 @ tr2 @ [CallSendRawTransaction (hexutil_Encode raw),
                                  Log (WarnTxNotSame (TxHash lib stx) (BytesToHash res))],
                      Ok (Hash_String (BytesToHash res))))
       \<and> (\<forall>K rp. \<not> transferNotCheck g
             \<and> (\<forall>i<K. snd (TransactionReceipt client (BytesToHash res) i) = NotFound)
             \<and> snd (TransactionReceipt client (BytesToHash res) K) = Found rp
             \<and> Status rp = ReceiptStatusSuccessful
           \<longrightarrow> (\<exists>tr. Transact g client lib now key toAddress amount gp data
                      = Some (tr, Ok (Hash_String (BytesToHash res)))))
       \<and> (\<forall>tr r. Transact g client lib now key toAddress amount gp data = Some (tr, r)
           \<longrightarrow> Log (WarnTxNotSame (TxHash lib stx) (BytesToHash res)) \<in> set tr
             \<and> (\<forall>h. CallTransactionReceipt h \<in> set tr \<longrightarrow> h = BytesToHash res)
             \<and> (\<forall>x. r = Ok x \<longrightarrow> x = Hash_String (BytesToHash res))
             \<and> (\<forall>er. r = Err er \<longrightarrow>
                   (\<exists>re. er = GetTxReceiptFail re) \<or> er = TxStatusFailed (BytesToHash res))
             \<and> (\<forall>f. r \<noteq> Fatal f) \<and> (\<forall>p. r \<noteq> Panic p))"
proof -
  let ?h = "BytesToHash res"
  let ?warn = "Log (WarnTxNotSame (TxHash lib stx) ?h)"
  let ?send = "CallSendRawTransaction (hexutil_Encode raw)"
  have snd: "SendRawTransaction client lib stx = ([?send], Inr ?h)"
    using m e by (rule SendRawTransaction_ok)
  have ne': "TxHash lib stx \<noteq> ?h" using ne by auto
  have T: "Transact g client lib now key toAddress amount gp data
           = (case Transact_confirm g client lib now toAddress b stx of
                None \<Rightarrow> None
              | Some (tr3, r) \<Rightarrow> Some (tr1 @ tr2 @ tr3, r))"
    using b s by (rule Transact_after_sign)
  have no_poll1: "CallTransactionReceipt h \<notin> set tr1" for h
    using Transact_buildTx_trace [of g client lib key toAddress amount gp data]
      Transact_fees_trace [of g client] b
    by (auto split: if_splits)
  have no_poll2: "CallTransactionReceipt h \<notin> set tr2" for h
    using Transact_sign_trace [of g client lib key toAddress amount data b] s by auto
  have part1: "Transact g client lib now key toAddress amount gp data
              = Some (tr1 @ tr2 @ [?send, ?warn], Ok (Hash_String ?h))"
    if "transferNotCheck g"
    using Transact_confirm_not_checked [OF nd snd that, of now toAddress b] ne'
    by (simp add: T)
  have part2: "\<exists>tr. Transact g client lib now key toAddress amount gp data
                      = Some (tr, Ok (Hash_String ?h))"
    if c: "\<not> transferNotCheck g"
      and miss: "\<forall>i<K. snd (TransactionReceipt client ?h i) = NotFound"
      and hit: "snd (TransactionReceipt client ?h K) = Found rp"
      and ok: "Status rp = ReceiptStatusSuccessful" for K rp
  proof -
    obtain trp now' where "getTxReceipt client ?h 0 now = Some (trp, now', Inr rp)"
      using getTxReceipt_unbounded [OF miss hit, of now] by blast
    from Transact_confirm_receipt [OF nd snd c this ok, of toAddress b]
    show ?thesis by (auto simp: T)
  qed
  have part3: "?warn \<in> set tr
             \<and> (\<forall>h. CallTransactionReceipt h \<in> set tr \<longrightarrow> h = ?h)
             \<and> (\<forall>x. r = Ok x \<longrightarrow> x = Hash_String ?h)
             \<and> (\<forall>er. r = Err er \<longrightarrow>
                   (\<exists>re. er = GetTxReceiptFail re) \<or> er = TxStatusFailed ?h)
             \<and> (\<forall>f. r \<noteq> Fatal f) \<and> (\<forall>p. r \<noteq> Panic p)"
    if run: "Transact g client lib now key toAddress amount gp data = Some (tr, r)" for tr r
  proof (cases "transferNotCheck g")
    case True
    from part1 [OF True] run have "tr = tr1 @ tr2 @ [?send, ?warn]" "r = Ok (Hash_String ?h)"
      by simp_all
    then show ?thesis using no_poll1 no_poll2 by auto
  next
    case False
    from run obtain tr3 where c3: "Transact_confirm g client lib now toAddress b stx = Some (tr3, r)"
      and tr: "tr = tr1 @ tr2 @ tr3"
      by (auto simp: T split: option.splits)
    from Transact_confirm_checked [OF nd snd False c3]
    obtain trp now' rr trl where
      g: "getTxReceipt client ?h 0 now = Some (trp, now', rr)"
      and t3: "tr3 = [?send] @ [?warn] @ trp @ trl"
      and l: "set trl \<subseteq> range Log"
      and r: "(case rr of
               Inl err \<Rightarrow> r = Err (GetTxReceiptFail err)
             | Inr rp \<Rightarrow> r = (if Status rp \<noteq> ReceiptStatusSuccessful
                               then Err (TxStatusFailed ?h) else Ok (Hash_String ?h)))"
      using ne' by auto
    have polls: "CallTransactionReceipt h \<in> set tr \<longrightarrow> h = ?h" for h
      using getTxReceipt_trace [OF g] l no_poll1 [of h] no_poll2 [of h]
      unfolding tr t3 by auto
    have warn: "?warn \<in> set tr" unfolding tr t3 by simp
    from r have res: "(\<forall>x. r = Ok x \<longrightarrow> x = Hash_String ?h)
             \<and> (\<forall>er. r = Err er \<longrightarrow>
                   (\<exists>re. er = GetTxReceiptFail re) \<or> er = TxStatusFailed ?h)
             \<and> (\<forall>f. r \<noteq> Fatal f) \<and> (\<forall>p. r \<noteq> Panic p)"
      by (cases rr) (auto split: if_splits)
    from warn polls res show ?thesis by blast
  qed
  from part1 part2 part3 show ?thesis by blast
qed



section \<open>The concrete world, step by step\<close>

lemma demo_nonce:
  "Transact_nonce (demo_options gl p m d c) demo_node a = ([CallPendingNonceAt a], Ok 7)"
  by (simp add: Transact_nonce_def demo_options_def demo_node_def)

lemma demo_gasLimit:
  "Transact_gasLimit (demo_options 0 p m d c) demo_node (Some a) []
     = ([CallCodeAt a], Ok 21000)"
  by (simp add: Transact_gasLimit_def isContractAddress_def demo_options_def demo_node_def)

lemma demo_gasPrice:
  "Transact_gasPrice demo_node None = ([CallGetGasPrice], Ok 1000000000)"
  by (simp add: Transact_gasPrice_def demo_node_def)

lemma demo_feeEstimate:
  "Transact_feeEstimate demo_node =
     ([CallFeeHistory 4 [5, 50, 95], CallBlockByNumber], Ok (10, 110))"
  by (simp add: Transact_feeEstimate_def Let_def reward_mean_def index2_def demo_node_def
      demo_history_def)

lemma demo_fees_estimated:
  "Transact_fees (demo_options gl [] [] d c) demo_node
     = ([CallFeeHistory 4 [5, 50, 95], CallBlockByNumber], Ok (10, 110))"
  by (simp add: Transact_fees_def demo_feeEstimate demo_options_def)

lemma demo_parse:
  "NewFromString ''1.5'' = Some (Decimal 15 (- 1))"
  "NewFromString ''30'' = Some (Decimal 30 0)"
  by (simp_all add: NewFromString_def parse_int_def is_exp_mark_def is_digit_def
      digits_val_def digit_val_def Let_def)

lemma demo_gwei:
  "gweiToWei ''1.5'' = 1500000000" "gweiToWei ''30'' = 30000000000"
  by (simp_all add: gweiToWei_def demo_parse Mul_def BigInt_def signed_divide_int_def)

lemma demo_fees_override:
  "Transact_fees (demo_options gl ''1.5'' ''30'' d c) demo_node
     = ([], Ok (1500000000, 30000000000))"
  by (simp add: Transact_fees_def demo_options_def demo_gwei)

lemma demo_txType:
  "globalOptTxType (demo_options gl p m d c) = txTypeEip1559 (demo_options gl p m d c)"
  by (simp add: demo_options_def)

lemma demo_from: "PubkeyToAddress demo_lib k = replicate 20 0"
  by (simp add: demo_lib_def)

lemma demo_buildTx:
  "Transact_buildTx (demo_options 0 [] [] d c) demo_node demo_lib 1 (Some a) 5 None []
   = ([CallPendingNonceAt (replicate 20 0), CallCodeAt a, CallGetGasPrice,
       CallFeeHistory 4 [5, 50, 95], CallBlockByNumber],
      Ok \<lparr>b_fromAddress = replicate 20 0, b_nonce = 7, b_gasLimit = 21000,
          b_gasPrice = 1000000000,
          b_tx = DynamicFeeTx 7 (Some a) 5 21000 10 110 []\<rparr>)"
  unfolding Transact_buildTx_def Let_def demo_nonce demo_gasLimit demo_gasPrice
    demo_fees_estimated demo_from
  by (simp add: demo_txType)

lemma demo_buildTx_override:
  "Transact_buildTx (demo_options 0 ''1.5'' ''30'' d c) demo_node demo_lib 1 (Some a) 5 None []
   = ([CallPendingNonceAt (replicate 20 0), CallCodeAt a, CallGetGasPrice],
      Ok \<lparr>b_fromAddress = replicate 20 0, b_nonce = 7, b_gasLimit = 21000,
          b_gasPrice = 1000000000,
          b_tx = DynamicFeeTx 7 (Some a) 5 21000 1500000000 30000000000 []\<rparr>)"
  unfolding Transact_buildTx_def Let_def demo_nonce demo_gasLimit demo_gasPrice
    demo_fees_override demo_from
  by (simp add: demo_txType)

lemma demo_sign:
  "Transact_sign (demo_options gl p m d c) demo_node demo_lib k toAddress amount data b
     = ([CallNetworkID], Ok (b_tx b))"
  by (simp add: Transact_sign_def demo_options_def demo_node_def demo_lib_def)

lemma demo_flags:
  "globalOptDryRun (demo_options gl p m d c) = d"
  "transferNotCheck (demo_options gl p m d c) = c"
  "globalOptGasLimit (demo_options gl p m d c) = gl"
  "globalOptMaxPriorityFeePerGas (demo_options gl p m d c) = p"
  "globalOptMaxFeePerGas (demo_options gl p m d c) = m"
  "gasUsedByTransferEth (demo_options gl p m d c) = 21000"
  by (simp_all add: demo_options_def)

lemma demo_node_answers:
  "CodeAt demo_node a = Inr []"
  "FeeHistory demo_node n ps = Inr demo_history"
  "BlockByNumber demo_node = Inr \<lparr>BaseFee = Some 100\<rparr>"
  "eth_sendRawTransaction demo_node raw = Inr [1]"
  "TransactionReceipt demo_node h 0 = (0, NotFound)"
  "TransactionReceipt demo_node h 1 = (0, Found \<lparr>Status = 1\<rparr>)"
  by (simp_all add: demo_node_def)

lemma demo_lib_answers:
  "MarshalBinary demo_lib t = Inr [3]"
  "TxHash demo_lib t = replicate 31 0 @ [2]"
  by (simp_all add: demo_lib_def)

lemma demo_hash: "BytesToHash [1] = replicate 31 0 @ [1]"
  by (simp add: BytesToHash_def)

section \<open>The claims on the concrete world\<close>

text \<open>The choice of the gas limit (C6) on the concrete world: an override of 50,000; no
  destination; a destination without code, with and without payload.\<close>

theorem Transact_gasLimit_selection_witness:
  "globalOptGasLimit (demo_options 50000 [] [] False False) \<noteq> 0
   \<and> Transact_gasLimit (demo_options 50000 [] [] False False) demo_node (Some []) [1]
       = ([], Ok 50000)
   \<and> globalOptGasLimit (demo_options 0 [] [] False False) = 0
   \<and> Transact_gasLimit (demo_options 0 [] [] False False) demo_node None [1]
       = ([], Ok 7000000)
   \<and> CodeAt demo_node [] = Inr []
   \<and> Transact_gasLimit (demo_options 0 [] [] False False) demo_node (Some []) []
       = ([CallCodeAt []], Ok 21000)
   \<and> Transact_gasLimit (demo_options 0 [] [] False False) demo_node (Some []) [1]
       = ([CallCodeAt []], Ok 900000)
   \<and> Transact_buildTx (demo_options 0 [] [] False False) demo_node demo_lib 1 (Some []) 5 None []
       = ([CallPendingNonceAt (replicate 20 0), CallCodeAt [], CallGetGasPrice,
           CallFeeHistory 4 [5, 50, 95], CallBlockByNumber],
          Ok \<lparr>b_fromAddress = replicate 20 0, b_nonce = 7, b_gasLimit = 21000,
              b_gasPrice = 1000000000,
              b_tx = DynamicFeeTx 7 (Some []) 5 21000 10 110 []\<rparr>)
   \<and> (\<exists>tr'. Transact_gasLimit (demo_options 0 [] [] False False) demo_node (Some []) []
               = (tr', Ok 21000))"
proof -
  note w1 = Transact_gasLimit_selection
    [of "demo_options 50000 [] [] False False" demo_node "Some []" "[1]" demo_lib 1 5 None]
  note w2 = Transact_gasLimit_selection
    [of "demo_options 0 [] [] False False" demo_node "Some []" "[1]" demo_lib 1 5 None]
  note w3 = Transact_gasLimit_selection
    [of "demo_options 0 [] [] False False" demo_node "Some []" "[]" demo_lib 1 5 None]
  have a: "Transact_gasLimit (demo_options 50000 [] [] False False) demo_node (Some []) [1]
       = ([], Ok 50000)"
    using w1 by (simp add: demo_flags)
  have b: "Transact_gasLimit (demo_options 0 [] [] False False) demo_node None [1]
       = ([], Ok 7000000)"
    using w2 by (simp add: demo_flags)
  have c: "Transact_gasLimit (demo_options 0 [] [] False False) demo_node (Some []) [1]
       = ([CallCodeAt []], Ok 900000)"
    using w2 demo_node_answers(1) [of "[]"] by (simp add: demo_flags)
  have d: "Transact_gasLimit (demo_options 0 [] [] False False) demo_node (Some []) []
       = ([CallCodeAt []], Ok 21000)"
    using w3 demo_node_answers(1) [of "[]"] by (simp add: demo_flags)
  have e: "\<exists>tr'. Transact_gasLimit (demo_options 0 [] [] False False) demo_node (Some []) []
               = (tr', Ok 21000)"
    using w3 demo_buildTx [of False False "[]"] by simp
  show ?thesis
    using a b c d e demo_buildTx [of False False "[]"]
    by (simp add: demo_flags demo_node_answers)
qed

text \<open>The default fees (C1) on the concrete world: the rewards 10, 10, 10 of the three
  oldest blocks give the priority fee 10, and the base fee 100 gives the max fee 110.\<close>

theorem Transact_fees_estimate_witness:
  "globalOptMaxPriorityFeePerGas (demo_options 0 [] [] False False) = []
   \<and> globalOptMaxFeePerGas (demo_options 0 [] [] False False) = []
   \<and> FeeHistory demo_node 4 [5, 50, 95] = Inr demo_history
   \<and> Reward demo_history = [[1, 10, 100], [1, 10, 100], [1, 10, 100], [1, 40, 100]]
   \<and> BlockByNumber demo_node = Inr \<lparr>BaseFee = Some 100\<rparr>
   \<and> Transact_fees (demo_options 0 [] [] False False) demo_node
       = ([CallFeeHistory 4 [5, 50, 95], CallBlockByNumber], Ok (10, 110))
   \<and> Transact_buildTx (demo_options 0 [] [] False False) demo_node demo_lib 1 (Some []) 5 None []
       = ([CallPendingNonceAt (replicate 20 0), CallCodeAt [], CallGetGasPrice,
           CallFeeHistory 4 [5, 50, 95], CallBlockByNumber],
          Ok \<lparr>b_fromAddress = replicate 20 0, b_nonce = 7, b_gasLimit = 21000,
              b_gasPrice = 1000000000,
              b_tx = DynamicFeeTx 7 (Some []) 5 21000 10 110 []\<rparr>)
   \<and> GasTipCap (DynamicFeeTx 7 (Some []) 5 21000 10 110 []) = (10 + 10 + 10) div 3
   \<and> GasFeeCap (DynamicFeeTx 7 (Some []) 5 21000 10 110 []) = 100 + (10 + 10 + 10) div 3"
proof -
  have h1: "globalOptMaxPriorityFeePerGas (demo_options 0 [] [] False False) = []"
    and h2: "globalOptMaxFeePerGas (demo_options 0 [] [] False False) = []"
    by (simp_all add: demo_flags)
  have h3: "FeeHistory demo_node 4 [5, 50, 95] = Inr demo_history"
    by (simp add: demo_node_answers)
  have h4: "Reward demo_history = [[1, 10, 100], [1, 10, 100], [1, 10, 100], [1, 40, 100]]"
    by (simp add: demo_history_def)
  have h5: "BlockByNumber demo_node = Inr \<lparr>BaseFee = Some 100\<rparr>"
    by (simp add: demo_node_answers)
  have h6: "BaseFee \<lparr>BaseFee = Some 100\<rparr> = Some 100" by simp
  note w = Transact_fees_estimate [OF h1 h2 h3 h4 h5 h6, of demo_lib 1 "Some []" 5 None "[]"]
  show ?thesis
    using w h1 h2 h3 h4 h5 demo_buildTx [of False False "[]"] by simp
qed

text \<open>
  The claim as worded, with the three most recent blocks, fails there: their rewards 10, 10
  and 40 average to 20, and the code answers 10.
\<close>

theorem Transact_fees_most_recent_counterexample:
  "globalOptMaxPriorityFeePerGas (demo_options 0 [] [] False False) = []
   \<and> globalOptMaxFeePerGas (demo_options 0 [] [] False False) = []
   \<and> FeeHistory demo_node 4 [5, 50, 95] = Inr demo_history
   \<and> Reward demo_history = [[1, 10, 100], [1, 10, 100], [1, 10, 100], [1, 40, 100]]
   \<and> spec_priority_fee (Reward demo_history) = 20
   \<and> Transact_fees (demo_options 0 [] [] False False) demo_node
       = ([CallFeeHistory 4 [5, 50, 95], CallBlockByNumber], Ok (10, 110))
   \<and> Transact_fees (demo_options 0 [] [] False False) demo_node
       \<noteq> ([CallFeeHistory 4 [5, 50, 95], CallBlockByNumber],
           Ok (spec_priority_fee (Reward demo_history),
               100 + spec_priority_fee (Reward demo_history)))"
proof -
  have s: "spec_priority_fee (Reward demo_history) = 20"
    by (simp add: spec_priority_fee_def demo_history_def)
  show ?thesis
    unfolding s
    by (simp add: demo_fees_estimated demo_flags demo_node_answers) (simp add: demo_history_def)
qed


lemma demo_hash_differs: "BytesToHash [1] \<noteq> TxHash demo_lib t"
  by (simp add: demo_hash demo_lib_answers)

lemma demo_decimal:
  "decimal_string False ''1'' ''5'' = ''1.5''" "decimal_string False ''30'' [] = ''30''"
  "list_all is_digit ''1''" "list_all is_digit ''5''" "list_all is_digit ''30''"
  "decimal_value False ''1'' ''5'' = 3 / 2" "decimal_value False ''30'' [] = 30"
  by (simp_all add: decimal_string_def decimal_value_def is_digit_def digits_val_def
      digit_val_def)

text \<open>The fee overrides (C7) on the concrete world: 1.5 gwei and 30 gwei, in a dry run.\<close>

theorem Transact_fee_overrides_witness:
  "globalOptMaxPriorityFeePerGas (demo_options 0 ''1.5'' ''30'' True False) \<noteq> []
   \<and> globalOptMaxFeePerGas (demo_options 0 ''1.5'' ''30'' True False) \<noteq> []
   \<and> Transact_fees (demo_options 0 ''1.5'' ''30'' True False) demo_node
       = ([], Ok (1500000000, 30000000000))
   \<and> Transact (demo_options 0 ''1.5'' ''30'' True False) demo_node demo_lib 0 1
         (Some []) 5 None []
       = Some ([CallPendingNonceAt (replicate 20 0), CallCodeAt [], CallGetGasPrice,
                CallNetworkID],
               Ok (Hash_String (replicate 31 0 @ [2])))
   \<and> \<not> is_fee_history (CallPendingNonceAt (replicate 20 0))
   \<and> \<not> is_fee_history (CallCodeAt [])
   \<and> \<not> is_fee_history CallGetGasPrice \<and> \<not> is_fee_history CallNetworkID
   \<and> Transact_buildTx (demo_options 0 ''1.5'' ''30'' True False) demo_node demo_lib 1
        (Some []) 5 None []
       = ([CallPendingNonceAt (replicate 20 0), CallCodeAt [], CallGetGasPrice],
          Ok \<lparr>b_fromAddress = replicate 20 0, b_nonce = 7, b_gasLimit = 21000,
              b_gasPrice = 1000000000,
              b_tx = DynamicFeeTx 7 (Some []) 5 21000 1500000000 30000000000 []\<rparr>)
   \<and> gweiToWei ''1.5'' = 1500000000 \<and> gweiToWei ''30'' = 30000000000
   \<and> ''1.5'' = decimal_string False ''1'' ''5'' \<and> list_all is_digit ''1''
   \<and> list_all is_digit ''5'' \<and> ''1'' @ ''5'' \<noteq> [] \<and> length ''5'' \<le> 9
   \<and> real_of_int (gweiToWei ''1.5'') = decimal_value False ''1'' ''5'' * 10 ^ 9
   \<and> real_of_int (gweiToWei ''30'') = decimal_value False ''30'' [] * 10 ^ 9"
proof -
  let ?g = "demo_options 0 ''1.5'' ''30'' True False"
  have h1: "globalOptMaxPriorityFeePerGas ?g \<noteq> []" and h2: "globalOptMaxFeePerGas ?g \<noteq> []"
    by (simp_all add: demo_flags)
  note w = Transact_fee_overrides [OF h1 h2, of demo_node demo_lib 0 1 "Some []" 5 None "[]"]
  have run: "Transact ?g demo_node demo_lib 0 1 (Some []) 5 None []
       = Some ([CallPendingNonceAt (replicate 20 0), CallCodeAt [], CallGetGasPrice,
                CallNetworkID],
               Ok (Hash_String (replicate 31 0 @ [2])))"
    by (simp add: Transact_def demo_buildTx_override demo_sign Transact_confirm_dry_run
        demo_flags demo_lib_answers)
  have nf: "\<not> is_fee_history (CallPendingNonceAt (replicate 20 0))"
    "\<not> is_fee_history (CallCodeAt [])"
    "\<not> is_fee_history CallGetGasPrice" "\<not> is_fee_history CallNetworkID"
    using w [THEN conjunct2, THEN conjunct1, rule_format, OF run] by simp_all
  have fees: "Transact_fees ?g demo_node = ([], Ok (1500000000, 30000000000))"
    using w [THEN conjunct1] by (simp add: demo_flags demo_gwei)
  have p1: "(''1.5'' = globalOptMaxPriorityFeePerGas ?g \<or> ''1.5'' = globalOptMaxFeePerGas ?g)
       \<and> ''1.5'' = decimal_string False ''1'' ''5'' \<and> list_all is_digit ''1''
       \<and> list_all is_digit ''5'' \<and> ''1'' @ ''5'' \<noteq> [] \<and> length ''5'' \<le> 9"
    by (simp add: demo_flags demo_decimal is_digit_def)
  have p2: "(''30'' = globalOptMaxPriorityFeePerGas ?g \<or> ''30'' = globalOptMaxFeePerGas ?g)
       \<and> ''30'' = decimal_string False ''30'' [] \<and> list_all is_digit ''30''
       \<and> list_all is_digit [] \<and> ''30'' @ [] \<noteq> [] \<and> length ([] :: string) \<le> 9"
    by (simp add: demo_flags demo_decimal is_digit_def)
  have x1: "real_of_int (gweiToWei ''1.5'') = decimal_value False ''1'' ''5'' * 10 ^ 9"
    by (rule w [THEN conjunct2, THEN conjunct2, THEN conjunct2, rule_format, OF p1])
  have x2: "real_of_int (gweiToWei ''30'') = decimal_value False ''30'' [] * 10 ^ 9"
    by (rule w [THEN conjunct2, THEN conjunct2, THEN conjunct2, rule_format, OF p2])
  have d: "''1.5'' = decimal_string False ''1'' ''5''" "list_all is_digit ''1''"
    "list_all is_digit ''5''" "''1'' @ ''5'' \<noteq> []" "length ''5'' \<le> 9"
    using p1 by simp_all
  show ?thesis
    by (intro conjI h1 h2 run nf fees x1 x2 d demo_buildTx_override demo_gwei)
qed

text \<open>The dry run (C9) on the concrete world.\<close>

theorem Transact_dry_run_witness:
  "globalOptDryRun (demo_options 0 [] [] True False)
   \<and> Transact_buildTx (demo_options 0 [] [] True False) demo_node demo_lib 1 (Some []) 5 None []
       = ([CallPendingNonceAt (replicate 20 0), CallCodeAt [], CallGetGasPrice,
           CallFeeHistory 4 [5, 50, 95], CallBlockByNumber],
          Ok \<lparr>b_fromAddress = replicate 20 0, b_nonce = 7, b_gasLimit = 21000,
              b_gasPrice = 1000000000,
              b_tx = DynamicFeeTx 7 (Some []) 5 21000 10 110 []\<rparr>)
   \<and> Transact (demo_options 0 [] [] True False) demo_node demo_lib 0 1 (Some []) 5 None []
       = Some ([CallPendingNonceAt (replicate 20 0), CallCodeAt [], CallGetGasPrice,
                CallFeeHistory 4 [5, 50, 95], CallBlockByNumber] @ [CallNetworkID],
               Ok (Hash_String (TxHash demo_lib (DynamicFeeTx 7 (Some []) 5 21000 10 110 []))))"
proof -
  let ?g = "demo_options 0 [] [] True False"
  let ?t = "DynamicFeeTx 7 (Some []) 5 21000 10 110 []"
  let ?b = "\<lparr>b_fromAddress = replicate 20 0, b_nonce = 7, b_gasLimit = 21000,
              b_gasPrice = 1000000000, b_tx = ?t\<rparr>"
  let ?tr1 = "[CallPendingNonceAt (replicate 20 0), CallCodeAt [], CallGetGasPrice,
                CallFeeHistory 4 [5, 50, 95], CallBlockByNumber]"
  have h: "globalOptDryRun ?g" by (simp add: demo_flags)
  have bs: "Transact_buildTx ?g demo_node demo_lib 1 (Some []) 5 None [] = (?tr1, Ok ?b)
            \<and> Transact_sign ?g demo_node demo_lib 1 (Some []) 5 [] ?b = ([CallNetworkID], Ok ?t)"
    by (simp add: demo_buildTx demo_sign)
  from Transact_dry_run [OF h, of demo_node demo_lib 0 1 "Some []" 5 None "[]"]
  obtain tr r where
    t: "Transact ?g demo_node demo_lib 0 1 (Some []) 5 None [] = Some (tr, r)"
    and f: "\<forall>tr1 b tr2 stx.
                 Transact_buildTx ?g demo_node demo_lib 1 (Some []) 5 None [] = (tr1, Ok b)
                 \<and> Transact_sign ?g demo_node demo_lib 1 (Some []) 5 [] b = (tr2, Ok stx)
               \<longrightarrow> tr = tr1 @ tr2 \<and> r = Ok (Hash_String (TxHash demo_lib stx))"
    by (elim exE conjE)
  have "tr = ?tr1 @ [CallNetworkID] \<and> r = Ok (Hash_String (TxHash demo_lib ?t))"
    by (rule f [rule_format, OF bs])
  then have "Transact ?g demo_node demo_lib 0 1 (Some []) 5 None []
       = Some (?tr1 @ [CallNetworkID], Ok (Hash_String (TxHash demo_lib ?t)))"
    using t by (simp only:)
  with h bs show ?thesis by (intro conjI) (simp_all only:)
qed

text \<open>The node's hash (C8) on the concrete world, without and with the wait for the receipt.\<close>

theorem Transact_node_hash_is_used_witness:
  "Transact_buildTx (demo_options 0 [] [] False True) demo_node demo_lib 1 (Some []) 5 None []
       = ([CallPendingNonceAt (replicate 20 0), CallCodeAt [], CallGetGasPrice,
           CallFeeHistory 4 [5, 50, 95], CallBlockByNumber],
          Ok \<lparr>b_fromAddress = replicate 20 0, b_nonce = 7, b_gasLimit = 21000,
              b_gasPrice = 1000000000,
              b_tx = DynamicFeeTx 7 (Some []) 5 21000 10 110 []\<rparr>)
   \<and> \<not> globalOptDryRun (demo_options 0 [] [] False True)
   \<and> MarshalBinary demo_lib (DynamicFeeTx 7 (Some []) 5 21000 10 110 []) = Inr [3]
   \<and> eth_sendRawTransaction demo_node (hexutil_Encode [3]) = Inr [1]
   \<and> BytesToHash [1] \<noteq> TxHash demo_lib (DynamicFeeTx 7 (Some []) 5 21000 10 110 [])
   \<and> transferNotCheck (demo_options 0 [] [] False True)
   \<and> Transact (demo_options 0 [] [] False True) demo_node demo_lib 0 1 (Some []) 5 None []
       = Some ([CallPendingNonceAt (replicate 20 0), CallCodeAt [], CallGetGasPrice,
                CallFeeHistory 4 [5, 50, 95], CallBlockByNumber] @ [CallNetworkID] @
               [CallSendRawTransaction (hexutil_Encode [3]),
                Log (WarnTxNotSame (TxHash demo_lib (DynamicFeeTx 7 (Some []) 5 21000 10 110 []))
                       (BytesToHash [1]))],
               Ok (Hash_String (BytesToHash [1])))
   \<and> \<not> transferNotCheck (demo_options 0 [] [] False False)
   \<and> snd (TransactionReceipt demo_node (BytesToHash [1]) 0) = NotFound
   \<and> snd (TransactionReceipt demo_node (BytesToHash [1]) 1) = Found \<lparr>Status = 1\<rparr>
   \<and> Status \<lparr>Status = 1\<rparr> = ReceiptStatusSuccessful
   \<and> (\<exists>tr. Transact (demo_options 0 [] [] False False) demo_node demo_lib 0 1 (Some []) 5 None []
              = Some (tr, Ok (Hash_String (BytesToHash [1])))
          \<and> Log (WarnTxNotSame (TxHash demo_lib (DynamicFeeTx 7 (Some []) 5 21000 10 110 []))
                   (BytesToHash [1])) \<in> set tr)"
proof -
  let ?t = "DynamicFeeTx 7 (Some []) 5 21000 10 110 []"
  let ?b = "\<lparr>b_fromAddress = replicate 20 0, b_nonce = 7, b_gasLimit = 21000,
              b_gasPrice = 1000000000, b_tx = ?t\<rparr>"
  let ?tr1 = "[CallPendingNonceAt (replicate 20 0), CallCodeAt [], CallGetGasPrice,
                CallFeeHistory 4 [5, 50, 95], CallBlockByNumber]"
  have bld: "Transact_buildTx (demo_options 0 [] [] False c) demo_node demo_lib 1 (Some []) 5
               None [] = (?tr1, Ok ?b)" for c
    by (rule demo_buildTx)
  have s: "Transact_sign (demo_options 0 [] [] False c) demo_node demo_lib 1 (Some []) 5 [] ?b
             = ([CallNetworkID], Ok ?t)" for c
    by (simp add: demo_sign)
  have nd: "\<not> globalOptDryRun (demo_options 0 [] [] False c)" for c
    by (simp add: demo_flags)
  have m: "MarshalBinary demo_lib ?t = Inr [3]" by (simp add: demo_lib_answers)
  have e: "eth_sendRawTransaction demo_node (hexutil_Encode [3]) = Inr [1]"
    by (simp add: demo_node_answers)
  have ne: "BytesToHash [1] \<noteq> TxHash demo_lib ?t" by (rule demo_hash_differs)
  note w1 = Transact_node_hash_is_used [OF bld s nd m e ne, of True 0]
  note w2 = Transact_node_hash_is_used [OF bld s nd m e ne, of False 0]
  have c1: "transferNotCheck (demo_options 0 [] [] False True)"
    by (simp add: demo_flags)
  have a: "Transact (demo_options 0 [] [] False True) demo_node demo_lib 0 1 (Some []) 5 None []
       = Some (?tr1 @ [CallNetworkID] @
               [CallSendRawTransaction (hexutil_Encode [3]),
                Log (WarnTxNotSame (TxHash demo_lib ?t) (BytesToHash [1]))],
               Ok (Hash_String (BytesToHash [1])))"
    by (rule w1 [THEN conjunct1, rule_format, OF c1])
  have p: "\<not> transferNotCheck (demo_options 0 [] [] False False)
       \<and> (\<forall>i<1. snd (TransactionReceipt demo_node (BytesToHash [1]) i) = NotFound)
       \<and> snd (TransactionReceipt demo_node (BytesToHash [1]) 1) = Found \<lparr>Status = 1\<rparr>
       \<and> Status \<lparr>Status = 1\<rparr> = ReceiptStatusSuccessful"
    by (simp add: demo_flags demo_node_def ReceiptStatusSuccessful_def)
  have "\<exists>tr. Transact (demo_options 0 [] [] False False) demo_node demo_lib 0 1 (Some []) 5 None []
              = Some (tr, Ok (Hash_String (BytesToHash [1])))"
    by (rule w2 [THEN conjunct2, THEN conjunct1, rule_format, OF p])
  then obtain tr where
    t: "Transact (demo_options 0 [] [] False False) demo_node demo_lib 0 1 (Some []) 5 None []
              = Some (tr, Ok (Hash_String (BytesToHash [1])))" ..
  note w3 = w2 [THEN conjunct2, THEN conjunct2, rule_format, OF t]
  have b: "\<exists>tr. Transact (demo_options 0 [] [] False False) demo_node demo_lib 0 1 (Some []) 5 None []
              = Some (tr, Ok (Hash_String (BytesToHash [1])))
          \<and> Log (WarnTxNotSame (TxHash demo_lib ?t) (BytesToHash [1])) \<in> set tr"
    using t w3 [THEN conjunct1] by (intro exI [of _ tr] conjI)
  have q: "\<not> transferNotCheck (demo_options 0 [] [] False False)"
    "snd (TransactionReceipt demo_node (BytesToHash [1]) 0) = NotFound"
    "snd (TransactionReceipt demo_node (BytesToHash [1]) 1) = Found \<lparr>Status = 1\<rparr>"
    "Status \<lparr>Status = 1\<rparr> = ReceiptStatusSuccessful"
    by (simp_all add: demo_flags demo_node_def ReceiptStatusSuccessful_def)
  show ?thesis
    by (intro conjI bld nd m e ne c1 a q b)
qed


end
